theory Spec2Isabelle
  imports Complex_Main
begin

section \<open>Values exchanged with the external libraries\<close>

text \<open>
  The script \<^verbatim>\<open>infer_play_diffusion.py\<close> is glue around three imported libraries:
  NeMo's ASR model, the \<^verbatim>\<open>playdiffusion\<close> package and \<^verbatim>\<open>soundfile\<close>.  The script
  performs no arithmetic on floating point values, it only passes them on; a Python
  float is therefore represented by the real number its literal denotes.  Python
  strings are \<^typ>\<open>string\<close>; the only characters the script inspects are the ASCII
  characters \<^verbatim>\<open>,.?!\<close> and \<^verbatim>\<open>/\<close>.
\<close>

type_synonym pyfloat = real

text \<open>A word entry: a dict with the keys \<^verbatim>\<open>word\<close>, \<^verbatim>\<open>start\<close> and \<^verbatim>\<open>end\<close>, both as
  found in \<^verbatim>\<open>output[0].timestamp['word']\<close> and as built by \<^verbatim>\<open>run_asr\<close>.\<close>

record word_dict =
  w_word :: string
  w_start :: pyfloat
  w_end :: pyfloat

text \<open>An element of the list returned by \<^verbatim>\<open>asr_model.transcribe\<close>: its \<^verbatim>\<open>text\<close>
  and its \<^verbatim>\<open>timestamp['word']\<close>.\<close>

record hypothesis =
  hyp_text :: string
  hyp_timestamp_word :: "word_dict list"

record InpaintInput =
  input_text :: string
  output_text :: string
  input_word_times :: "word_dict list"
  audio :: string
  num_steps :: int
  init_temp :: pyfloat
  init_diversity :: pyfloat
  guidance :: pyfloat
  rescale :: pyfloat
  topk :: int

record TTSInput =
  tts_output_text :: string
  tts_voice :: string

text \<open>The pair \<^verbatim>\<open>output_audio\<close>: component 0 is the sample rate, component 1 the
  sample buffer.\<close>

type_synonym waveform = "int \<times> pyfloat list"

section \<open>Effects and exceptions\<close>

text \<open>
  Each \<^verbatim>\<open>print\<close> statement of the script has one constructor, which carries the value
  interpolated into the message (the literal text of the messages is Chinese and is not
  reproduced).
\<close>

datatype msg =
    Msg_model_loaded string
  | Msg_run_asr string
  | Msg_asr_result string
  | Msg_inpaint_start
  | Msg_input_audio string
  | Msg_target_text string
  | Msg_success
  | Msg_save string
  | Msg_tts_start
  | Msg_input_text string
  | Msg_ref_voice string
  | Msg_pipeline_start
  | Msg_rule
  | Msg_pipeline_done
  | Msg_text string
  | Msg_word_times "word_dict list"
  | Msg_output_file string

text \<open>What the script does to the outside: printing, and calls into the libraries.\<close>

datatype event =
    Print msg
  | Call_PlayDiffusion
  | Call_restore_from string
  | Call_transcribe "string list" bool
  | Call_inpaint InpaintInput
  | Call_tts TTSInput
  | Call_sf_write string "pyfloat list" int string

datatype value_error = Inpaint_needs_text | Tts_needs_text | Tts_needs_voice

text \<open>
  \<open>SystemExit\<close> is how \<^verbatim>\<open>argparse\<close> rejects a command line, \<open>ValueError\<close> is raised by
  \<^verbatim>\<open>main\<close> itself, \<open>IndexError\<close> by \<^verbatim>\<open>output[0]\<close> on an empty list, and \<open>Raised\<close> is
  any exception coming out of a library call (the script catches none).
\<close>

datatype exn = SystemExit int | ValueError value_error | IndexError | Raised string

text \<open>A computation yields the events it performed, in order, and either the
  exception that ended it or its value.\<close>

type_synonym 'a io = "event list \<times> (exn + 'a)"

definition return_io :: "'a \<Rightarrow> 'a io" where
  "return_io x = ([], Inr x)"

definition raise_io :: "exn \<Rightarrow> 'a io" where
  "raise_io e = ([], Inl e)"

definition emit :: "event \<Rightarrow> unit io" where
  "emit ev = ([ev], Inr ())"

definition bind_io :: "'a io \<Rightarrow> ('a \<Rightarrow> 'b io) \<Rightarrow> 'b io" where
  "bind_io m f =
     (case m of
        (t, Inl e) \<Rightarrow> (t, Inl e)
      | (t, Inr x) \<Rightarrow> (case f x of (t', r) \<Rightarrow> (t @ t', r)))"

text \<open>A library call: the call is an event whether it returns or raises.\<close>

definition call :: "event \<Rightarrow> string + 'a \<Rightarrow> 'a io" where
  "call ev r = ([ev], case r of Inl e \<Rightarrow> Inl (Raised e) | Inr x \<Rightarrow> Inr x)"

section \<open>The libraries\<close>

text \<open>
  The behaviour of the imported code is a parameter: every library function is an
  arbitrary function of its arguments that returns a value or raises.
\<close>

record PlayDiffusion =
  inpaint :: "InpaintInput \<Rightarrow> string + waveform"
  tts :: "TTSInput \<Rightarrow> string + waveform"

record ASRModel =
  transcribe :: "string list \<Rightarrow> bool \<Rightarrow> string + hypothesis list"

record libs =
  new_PlayDiffusion :: "string + PlayDiffusion"
  restore_from :: "string \<Rightarrow> string + ASRModel"
  sf_write :: "string \<Rightarrow> pyfloat list \<Rightarrow> int \<Rightarrow> string \<Rightarrow> string + unit"

section \<open>Python built-ins used by the script\<close>

text \<open>\<^verbatim>\<open>s.strip(chars)\<close>: drop the characters of \<open>chars\<close> from both ends of \<open>s\<close>.\<close>

definition lstrip :: "string \<Rightarrow> string \<Rightarrow> string" where
  "lstrip chars s = dropWhile (\<lambda>c. c \<in> set chars) s"

definition rstrip :: "string \<Rightarrow> string \<Rightarrow> string" where
  "rstrip chars s = rev (dropWhile (\<lambda>c. c \<in> set chars) (rev s))"

definition strip :: "string \<Rightarrow> string \<Rightarrow> string" where
  "strip chars s = rstrip chars (lstrip chars s)"

text \<open>\<^verbatim>\<open>os.path.basename\<close> (POSIX): what follows the last slash.\<close>

definition basename :: "string \<Rightarrow> string" where
  "basename p = rev (takeWhile (\<lambda>c. c \<noteq> CHR ''/'') (rev p))"

text \<open>\<^verbatim>\<open>output[0]\<close> on a list.\<close>

definition index0 :: "'a list \<Rightarrow> 'a io" where
  "index0 xs = (case xs of [] \<Rightarrow> raise_io IndexError | x # _ \<Rightarrow> return_io x)"

section \<open>The class PlayDiffusionInference\<close>

record PlayDiffusionInference =
  inpainter :: PlayDiffusion
  asr_model :: ASRModel

definition init :: "libs \<Rightarrow> string \<Rightarrow> PlayDiffusionInference io" where
  "init L asr_model_path =
     bind_io (call Call_PlayDiffusion (new_PlayDiffusion L)) (\<lambda>pd.
     bind_io (call (Call_restore_from asr_model_path) (restore_from L asr_model_path)) (\<lambda>m.
     bind_io (emit (Print (Msg_model_loaded asr_model_path))) (\<lambda>_.
     return_io \<lparr>inpainter = pd, asr_model = m\<rparr>)))"

definition run_asr ::
  "PlayDiffusionInference \<Rightarrow> string \<Rightarrow> (string \<times> string \<times> word_dict list) io" where
  "run_asr self audio_path =
     bind_io (emit (Print (Msg_run_asr audio_path))) (\<lambda>_.
     bind_io (call (Call_transcribe [audio_path] True)
                (transcribe (asr_model self) [audio_path] True)) (\<lambda>output.
     bind_io (index0 output) (\<lambda>out0.
       let word_times =
             map (\<lambda>word. \<lparr>w_word = strip '',.?!'' (w_word word),
                            w_start = w_start word,
                            w_end = w_end word\<rparr>)
                 (hyp_timestamp_word out0);
           text = hyp_text out0
       in bind_io (emit (Print (Msg_asr_result text))) (\<lambda>_.
          return_io (text, text, word_times)))))"

text \<open>The keyword parameters of \<^verbatim>\<open>inpaint_audio\<close> that have a default: \<open>None\<close> is a
  parameter the caller left out.\<close>

record sampling_kwargs =
  kw_num_steps :: "int option"
  kw_init_temp :: "pyfloat option"
  kw_init_diversity :: "pyfloat option"
  kw_guidance :: "pyfloat option"
  kw_rescale :: "pyfloat option"
  kw_topk :: "int option"

definition no_kwargs :: sampling_kwargs where
  "no_kwargs = \<lparr>kw_num_steps = None, kw_init_temp = None, kw_init_diversity = None,
                 kw_guidance = None, kw_rescale = None, kw_topk = None\<rparr>"

definition default :: "'a \<Rightarrow> 'a option \<Rightarrow> 'a" where
  "default d v = (case v of None \<Rightarrow> d | Some x \<Rightarrow> x)"

text \<open>The body of \<^verbatim>\<open>inpaint_audio\<close> from the binding
  \<^verbatim>\<open>input_text, _, word_times = ...\<close> on, as a function of the triple bound there.\<close>

definition inpaint_from_asr ::
  "libs \<Rightarrow> PlayDiffusionInference \<Rightarrow> string \<Rightarrow> string \<Rightarrow> sampling_kwargs \<Rightarrow> string option
     \<Rightarrow> string \<times> string \<times> word_dict list \<Rightarrow> string io" where
  "inpaint_from_asr L self audio_path output_text' kw output_path asr =
     (case asr of (input_text', _, word_times) \<Rightarrow>
        let req = \<lparr>input_text = input_text',
                   output_text = output_text',
                   input_word_times = word_times,
                   audio = audio_path,
                   num_steps = default 30 (kw_num_steps kw),
                   init_temp = default 1.0 (kw_init_temp kw),
                   init_diversity = default 1.0 (kw_init_diversity kw),
                   guidance = default 0.5 (kw_guidance kw),
                   rescale = default 0.7 (kw_rescale kw),
                   topk = default 25 (kw_topk kw)\<rparr>
        in
        bind_io (call (Call_inpaint req) (inpaint (inpainter self) req)) (\<lambda>output_audio.
        bind_io (emit (Print Msg_success)) (\<lambda>_.
          let output_path' =
                (case output_path of
                   None \<Rightarrow> ''output_inpaint_'' @ basename audio_path
                 | Some p \<Rightarrow> p)
          in
          bind_io (emit (Print (Msg_save output_path'))) (\<lambda>_.
          bind_io (call (Call_sf_write output_path' (snd output_audio) (fst output_audio) ''PCM_16'')
                     (sf_write L output_path' (snd output_audio) (fst output_audio) ''PCM_16'')) (\<lambda>_.
          return_io output_path')))))"

definition inpaint_audio ::
  "libs \<Rightarrow> PlayDiffusionInference \<Rightarrow> string \<Rightarrow> string \<Rightarrow> sampling_kwargs \<Rightarrow> string option
     \<Rightarrow> string io" where
  "inpaint_audio L self audio_path output_text' kw output_path =
     bind_io (emit (Print Msg_inpaint_start)) (\<lambda>_.
     bind_io (emit (Print (Msg_input_audio audio_path))) (\<lambda>_.
     bind_io (emit (Print (Msg_target_text output_text'))) (\<lambda>_.
     bind_io (run_asr self audio_path)
       (inpaint_from_asr L self audio_path output_text' kw output_path))))"

definition text_to_speech ::
  "libs \<Rightarrow> PlayDiffusionInference \<Rightarrow> string \<Rightarrow> string \<Rightarrow> string option \<Rightarrow> string io" where
  "text_to_speech L self text voice_audio_path output_path =
     bind_io (emit (Print Msg_tts_start)) (\<lambda>_.
     bind_io (emit (Print (Msg_input_text text))) (\<lambda>_.
     bind_io (emit (Print (Msg_ref_voice voice_audio_path))) (\<lambda>_.
       let req = \<lparr>tts_output_text = text, tts_voice = voice_audio_path\<rparr> in
       bind_io (call (Call_tts req) (tts (inpainter self) req)) (\<lambda>output_audio.
         let output_path' =
               (case output_path of
                  None \<Rightarrow> ''output_tts_'' @ basename voice_audio_path
                | Some p \<Rightarrow> p)
         in
         bind_io (emit (Print (Msg_save output_path'))) (\<lambda>_.
         bind_io (call (Call_sf_write output_path' (snd output_audio) (fst output_audio) ''PCM_16'')
                    (sf_write L output_path' (snd output_audio) (fst output_audio) ''PCM_16'')) (\<lambda>_.
         return_io output_path'))))))"

definition run_complete_pipeline ::
  "libs \<Rightarrow> PlayDiffusionInference \<Rightarrow> string \<Rightarrow> string \<Rightarrow> string option \<Rightarrow> sampling_kwargs
     \<Rightarrow> string io" where
  "run_complete_pipeline L self audio_path target_text output_path kwargs =
     bind_io (emit (Print Msg_pipeline_start)) (\<lambda>_.
     bind_io (emit (Print Msg_rule)) (\<lambda>_.
     bind_io (inpaint_audio L self audio_path target_text kwargs output_path) (\<lambda>result.
     bind_io (emit (Print Msg_rule)) (\<lambda>_.
     bind_io (emit (Print Msg_pipeline_done)) (\<lambda>_.
     return_io result)))))"

section \<open>The command line\<close>

text \<open>The flags as given on the command line: \<open>None\<close> is a flag that was left out.
  The values of the typed flags are already converted.\<close>

record flags =
  flag_mode :: "string option"
  flag_audio :: "string option"
  flag_text :: "string option"
  flag_voice :: "string option"
  flag_output :: "string option"
  flag_asr_model :: "string option"
  flag_num_steps :: "int option"
  flag_init_temp :: "pyfloat option"
  flag_init_diversity :: "pyfloat option"
  flag_guidance :: "pyfloat option"
  flag_rescale :: "pyfloat option"
  flag_topk :: "int option"

text \<open>The namespace \<^verbatim>\<open>args\<close> that \<^verbatim>\<open>parser.parse_args()\<close> returns.\<close>

record args =
  arg_mode :: string
  arg_audio :: string
  arg_text :: "string option"
  arg_voice :: "string option"
  arg_output :: "string option"
  arg_asr_model :: string
  arg_num_steps :: int
  arg_init_temp :: pyfloat
  arg_init_diversity :: pyfloat
  arg_guidance :: pyfloat
  arg_rescale :: pyfloat
  arg_topk :: int

text \<open>The parser declared in \<^verbatim>\<open>main\<close>: \<^verbatim>\<open>--mode\<close> has three choices and a default,
  \<^verbatim>\<open>--audio\<close> is required, the others default to \<^verbatim>\<open>None\<close> or to the declared value.
  A rejected command line ends the process with status 2.\<close>

definition parse_args :: "flags \<Rightarrow> args io" where
  "parse_args f =
     (let mode = default ''inpaint'' (flag_mode f) in
      if mode \<notin> set [''inpaint'', ''tts'', ''asr''] then raise_io (SystemExit 2)
      else
        (case flag_audio f of
           None \<Rightarrow> raise_io (SystemExit 2)
         | Some a \<Rightarrow>
             return_io
               \<lparr>arg_mode = mode,
                arg_audio = a,
                arg_text = flag_text f,
                arg_voice = flag_voice f,
                arg_output = flag_output f,
                arg_asr_model =
                  default ''modeldata/audio/asr/parakeet/parakeet-tdt-0.6b-v2.nemo''
                    (flag_asr_model f),
                arg_num_steps = default 30 (flag_num_steps f),
                arg_init_temp = default 1.0 (flag_init_temp f),
                arg_init_diversity = default 1.0 (flag_init_diversity f),
                arg_guidance = default 0.5 (flag_guidance f),
                arg_rescale = default 0.7 (flag_rescale f),
                arg_topk = default 25 (flag_topk f)\<rparr>))"

text \<open>\<^verbatim>\<open>not x\<close> for an optional string: true for \<^verbatim>\<open>None\<close> and for the empty string.\<close>

definition falsy :: "string option \<Rightarrow> bool" where
  "falsy x = (case x of None \<Rightarrow> True | Some s \<Rightarrow> s = [])"

definition main :: "libs \<Rightarrow> flags \<Rightarrow> unit io" where
  "main L f =
     bind_io (parse_args f) (\<lambda>args.
     bind_io (init L (arg_asr_model args)) (\<lambda>inference.
       if arg_mode args = ''asr'' then
         bind_io (run_asr inference (arg_audio args)) (\<lambda>(text, _, word_times).
         bind_io (emit (Print (Msg_text text))) (\<lambda>_.
         emit (Print (Msg_word_times word_times))))
       else if arg_mode args = ''inpaint'' then
         (if falsy (arg_text args) then raise_io (ValueError Inpaint_needs_text)
          else
            bind_io (run_complete_pipeline L inference
                       (arg_audio args) (the (arg_text args)) (arg_output args)
                       \<lparr>kw_num_steps = Some (arg_num_steps args),
                        kw_init_temp = Some (arg_init_temp args),
                        kw_init_diversity = Some (arg_init_diversity args),
                        kw_guidance = Some (arg_guidance args),
                        kw_rescale = Some (arg_rescale args),
                        kw_topk = Some (arg_topk args)\<rparr>) (\<lambda>result.
            emit (Print (Msg_output_file result))))
       else if arg_mode args = ''tts'' then
         (if falsy (arg_text args) then raise_io (ValueError Tts_needs_text)
          else if falsy (arg_voice args) then raise_io (ValueError Tts_needs_voice)
          else
            bind_io (text_to_speech L inference
                       (the (arg_text args)) (the (arg_voice args))
                       (arg_output args)) (\<lambda>result.
            emit (Print (Msg_output_file result))))
       else return_io ()))"

section \<open>Reading a trace\<close>

fun is_print :: "event \<Rightarrow> bool" where
  "is_print (Print _) = True"
| "is_print _ = False"

text \<open>The library calls of a trace, in order.\<close>

definition calls :: "event list \<Rightarrow> event list" where
  "calls t = filter (\<lambda>e. \<not> is_print e) t"

fun is_transcribe :: "event \<Rightarrow> bool" where
  "is_transcribe (Call_transcribe _ _) = True"
| "is_transcribe _ = False"

fun is_inpaint :: "event \<Rightarrow> bool" where
  "is_inpaint (Call_inpaint _) = True"
| "is_inpaint _ = False"


text \<open>The requests handed to \<^verbatim>\<open>inpainter.inpaint\<close>, and the files handed to
  \<^verbatim>\<open>sf.write\<close>.\<close>

fun inpaint_requests :: "event list \<Rightarrow> InpaintInput list" where
  "inpaint_requests [] = []"
| "inpaint_requests (Call_inpaint r # t) = r # inpaint_requests t"
| "inpaint_requests (_ # t) = inpaint_requests t"


fun written_paths :: "event list \<Rightarrow> string list" where
  "written_paths [] = []"
| "written_paths (Call_sf_write p _ _ _ # t) = p # written_paths t"
| "written_paths (_ # t) = written_paths t"

text \<open>Shorthand for what \<^verbatim>\<open>main\<close> passes on from the flags: the model path given to the
  constructor, and the six keyword arguments given to \<^verbatim>\<open>run_complete_pipeline\<close>.\<close>

definition model_path :: "flags \<Rightarrow> string" where
  "model_path f =
     default ''modeldata/audio/asr/parakeet/parakeet-tdt-0.6b-v2.nemo'' (flag_asr_model f)"

definition flag_kwargs :: "flags \<Rightarrow> sampling_kwargs" where
  "flag_kwargs f =
     \<lparr>kw_num_steps = Some (default 30 (flag_num_steps f)),
      kw_init_temp = Some (default 1.0 (flag_init_temp f)),
      kw_init_diversity = Some (default 1.0 (flag_init_diversity f)),
      kw_guidance = Some (default 0.5 (flag_guidance f)),
      kw_rescale = Some (default 0.7 (flag_rescale f)),
      kw_topk = Some (default 25 (flag_topk f))\<rparr>"

section \<open>Stub libraries\<close>

text \<open>Deterministic stand-ins for the three libraries, on which the script can be run:
  the ASR stub recognises two words, the diffusion stub returns a waveform at 16000 Hz.\<close>

definition stub_asr :: ASRModel where
  "stub_asr =
     \<lparr>transcribe = (\<lambda>paths timestamps.
        Inr [\<lparr>hyp_text = ''hello, world.'',
              hyp_timestamp_word =
                [\<lparr>w_word = ''hello,'', w_start = 1.0, w_end = 1.5\<rparr>,
                 \<lparr>w_word = ''world.'', w_start = 1.5, w_end = 2.0\<rparr>]\<rparr>])\<rparr>"

definition stub_pd :: PlayDiffusion where
  "stub_pd =
     \<lparr>inpaint = (\<lambda>req. Inr (16000, [0, 0.5, -0.5])),
      tts = (\<lambda>req. Inr (24000, [0.25]))\<rparr>"

definition stub_libs :: libs where
  "stub_libs =
     \<lparr>new_PlayDiffusion = Inr stub_pd,
      restore_from = (\<lambda>path. Inr stub_asr),
      sf_write = (\<lambda>path data samplerate subtype. Inr ())\<rparr>"

definition stub_self :: PlayDiffusionInference where
  "stub_self = \<lparr>inpainter = stub_pd, asr_model = stub_asr\<rparr>"

text \<open>A command line with \<^verbatim>\<open>--audio clips/a.wav\<close> and nothing else.\<close>

definition only_audio :: flags where
  "only_audio =
     \<lparr>flag_mode = None, flag_audio = Some ''clips/a.wav'', flag_text = None,
      flag_voice = None, flag_output = None, flag_asr_model = None,
      flag_num_steps = None, flag_init_temp = None, flag_init_diversity = None,
      flag_guidance = None, flag_rescale = None, flag_topk = None\<rparr>"

text \<open>Three command lines on that audio file: inpainting to the text \<^verbatim>\<open>bye\<close>, synthesis
  of \<^verbatim>\<open>bye\<close> in the voice of \<^verbatim>\<open>voices/ref.wav\<close>, and transcription only.\<close>

definition inpaint_flags :: flags where
  "inpaint_flags = only_audio\<lparr>flag_text := Some ''bye''\<rparr>"

definition tts_flags :: flags where
  "tts_flags = only_audio\<lparr>flag_mode := Some ''tts'', flag_text := Some ''bye'',
                           flag_voice := Some ''voices/ref.wav''\<rparr>"

definition asr_flags :: flags where
  "asr_flags = only_audio\<lparr>flag_mode := Some ''asr''\<rparr>"

section \<open>Laws of sequencing\<close>

lemma bind_io_return [simp]: "bind_io (return_io x) f = f x"
  by (simp add: bind_io_def return_io_def split: prod.splits)

lemma bind_io_Inl [simp]: "bind_io (t, Inl e) f = (t, Inl e)"
  by (simp add: bind_io_def)

lemma bind_io_Inr: "bind_io (t, Inr x) f = (t @ fst (f x), snd (f x))"
  by (simp add: bind_io_def split: prod.splits)

lemma bind_io_emit: "bind_io (emit e) f = (e # fst (f ()), snd (f ()))"
  by (simp add: bind_io_def emit_def split: prod.splits)

lemma bind_io_raise: "bind_io (raise_io e) f = raise_io e"
  by (simp add: bind_io_def raise_io_def)

lemma bind_io_call:
  "bind_io (call ev r) f =
     (case r of Inl e \<Rightarrow> ([ev], Inl (Raised e)) | Inr x \<Rightarrow> (ev # fst (f x), snd (f x)))"
  by (simp add: bind_io_def call_def split: prod.splits sum.splits)

lemma bind_io_index0:
  "bind_io (index0 xs) f = (case xs of [] \<Rightarrow> ([], Inl IndexError) | x # _ \<Rightarrow> f x)"
  by (simp add: index0_def bind_io_def raise_io_def return_io_def
      split: list.splits prod.splits)

lemma fst_bind_io:
  "fst (bind_io m f) = fst m @ (case snd m of Inl e \<Rightarrow> [] | Inr x \<Rightarrow> fst (f x))"
  by (auto simp add: bind_io_def split: prod.splits sum.splits)

lemma snd_bind_io:
  "snd (bind_io m f) = (case snd m of Inl e \<Rightarrow> Inl e | Inr x \<Rightarrow> snd (f x))"
  by (auto simp add: bind_io_def split: prod.splits sum.splits)

lemma fst_emit: "fst (emit e) = [e]" and snd_emit: "snd (emit e) = Inr ()"
  by (simp_all add: emit_def)

lemma fst_return_io: "fst (return_io x) = []" and snd_return_io: "snd (return_io x) = Inr x"
  by (simp_all add: return_io_def)

lemma fst_raise_io: "fst (raise_io e) = []" and snd_raise_io: "snd (raise_io e) = Inl e"
  by (simp_all add: raise_io_def)

lemmas io_simps =
  bind_io_emit bind_io_raise bind_io_call bind_io_index0 fst_bind_io snd_bind_io
  fst_emit snd_emit fst_return_io snd_return_io fst_raise_io snd_raise_io

section \<open>The built-ins\<close>

text \<open>The result of \<open>strip\<close> is what is left of the string between a prefix and a suffix
  made of the given characters, and it neither starts nor ends with one of them.\<close>

lemma strip_trimmed:
  "\<exists>pre suf. s = pre @ strip cs s @ suf \<and> set pre \<subseteq> set cs \<and> set suf \<subseteq> set cs \<and>
     (strip cs s = [] \<or> (hd (strip cs s) \<notin> set cs \<and> last (strip cs s) \<notin> set cs))"
proof -
  let ?P = "\<lambda>c. c \<in> set cs"
  let ?m = "dropWhile ?P s"
  let ?r = "rev (dropWhile ?P (rev ?m))"
  let ?pre = "takeWhile ?P s"
  let ?suf = "rev (takeWhile ?P (rev ?m))"
  have r: "strip cs s = ?r" by (simp add: strip_def lstrip_def rstrip_def)
  have "rev ?m = takeWhile ?P (rev ?m) @ dropWhile ?P (rev ?m)" by simp
  then have "rev (rev ?m) = rev (takeWhile ?P (rev ?m) @ dropWhile ?P (rev ?m))" by simp
  then have m: "?m = ?r @ ?suf" by (simp only: rev_rev_ident rev_append)
  have "s = ?pre @ ?m" by simp
  with m have s: "s = ?pre @ ?r @ ?suf" by simp
  have pre: "set ?pre \<subseteq> set cs" by (auto dest: set_takeWhileD)
  have suf: "set ?suf \<subseteq> set cs" by (auto dest: set_takeWhileD)
  have ends: "hd ?r \<notin> set cs \<and> last ?r \<notin> set cs" if ne: "?r \<noteq> []"
  proof
    from ne have ne': "dropWhile ?P (rev ?m) \<noteq> []" by simp
    then have "\<not> ?P (hd (dropWhile ?P (rev ?m)))" by (rule hd_dropWhile)
    then show "last ?r \<notin> set cs" using ne' by (simp add: last_rev)
    have mne: "?m \<noteq> []"
    proof
      assume e: "?m = []"
      have "?r = []" unfolding e by simp
      with ne show False by simp
    qed
    then have "\<not> ?P (hd ?m)" by (rule hd_dropWhile)
    moreover from m ne have "hd ?m = hd ?r" by (metis hd_append2)
    ultimately show "hd ?r \<notin> set cs" by simp
  qed
  show ?thesis
    unfolding r using s pre suf ends by blast
qed

lemma basename_no_slash: "CHR ''/'' \<notin> set (basename p)"
  by (auto simp: basename_def dest: set_takeWhileD)

lemma basename_suffix:
  "\<exists>d. p = d @ basename p \<and> (d = [] \<or> last d = CHR ''/'')"
proof -
  let ?Q = "\<lambda>c. c \<noteq> CHR ''/''"
  let ?d = "rev (dropWhile ?Q (rev p))"
  have "rev p = takeWhile ?Q (rev p) @ dropWhile ?Q (rev p)" by simp
  then have "rev (rev p) = rev (takeWhile ?Q (rev p) @ dropWhile ?Q (rev p))" by simp
  then have p: "p = ?d @ basename p" by (simp only: rev_rev_ident rev_append basename_def)
  have "last ?d = CHR ''/''" if "?d \<noteq> []"
  proof -
    from that have ne: "dropWhile ?Q (rev p) \<noteq> []" by simp
    then have "\<not> ?Q (hd (dropWhile ?Q (rev p)))" by (rule hd_dropWhile)
    then show ?thesis using ne by (simp add: last_rev)
  qed
  with p show ?thesis by blast
qed

section \<open>What the methods do\<close>

text \<open>When the ASR model returns at least one hypothesis, \<^verbatim>\<open>run_asr\<close> prints twice around
  the one call and returns the text of the first hypothesis twice.\<close>

lemma run_asr_ok:
  assumes "transcribe (asr_model self) [audio_path] True = Inr (h # hs)"
  shows "run_asr self audio_path =
     ([Print (Msg_run_asr audio_path), Call_transcribe [audio_path] True,
       Print (Msg_asr_result (hyp_text h))],
      Inr (hyp_text h, hyp_text h,
           map (\<lambda>word. \<lparr>w_word = strip '',.?!'' (w_word word), w_start = w_start word,
                          w_end = w_end word\<rparr>) (hyp_timestamp_word h)))"
  using assms by (simp add: run_asr_def io_simps Let_def prod_eq_iff)

lemma run_asr_calls:
  "calls (fst (run_asr self audio_path)) = [Call_transcribe [audio_path] True]"
  by (simp add: run_asr_def io_simps Let_def calls_def split: sum.splits list.splits)

lemma inpaint_from_asr_calls:
  "calls (fst (inpaint_from_asr L self a t kw out (x, y, z))) =
   (let req = \<lparr>input_text = x, output_text = t, input_word_times = z, audio = a,
                   num_steps = default 30 (kw_num_steps kw),
                   init_temp = default 1.0 (kw_init_temp kw),
                   init_diversity = default 1.0 (kw_init_diversity kw),
                   guidance = default 0.5 (kw_guidance kw),
                   rescale = default 0.7 (kw_rescale kw),
                   topk = default 25 (kw_topk kw)\<rparr> in
    Call_inpaint req #
     (case inpaint (inpainter self) req of
        Inl e \<Rightarrow> []
      | Inr wav \<Rightarrow>
          [Call_sf_write (case out of None \<Rightarrow> ''output_inpaint_'' @ basename a | Some p \<Rightarrow> p)
             (snd wav) (fst wav) ''PCM_16'']))"
  by (simp add: inpaint_from_asr_def io_simps Let_def calls_def split: sum.splits)

lemma run_asr_cases:
  "run_asr self a =
    (case transcribe (asr_model self) [a] True of
       Inl e \<Rightarrow> ([Print (Msg_run_asr a), Call_transcribe [a] True], Inl (Raised e))
     | Inr [] \<Rightarrow> ([Print (Msg_run_asr a), Call_transcribe [a] True], Inl IndexError)
     | Inr (h # hs) \<Rightarrow>
         ([Print (Msg_run_asr a), Call_transcribe [a] True, Print (Msg_asr_result (hyp_text h))],
          Inr (hyp_text h, hyp_text h,
               map (\<lambda>word. \<lparr>w_word = strip '',.?!'' (w_word word), w_start = w_start word,
                              w_end = w_end word\<rparr>) (hyp_timestamp_word h))))"
  by (simp add: run_asr_def io_simps Let_def prod_eq_iff split: sum.splits list.splits)

lemma inpaint_audio_trace:
  "fst (inpaint_audio L self a t kw out) =
     [Print Msg_inpaint_start, Print (Msg_input_audio a), Print (Msg_target_text t)] @
     fst (run_asr self a) @
     (case snd (run_asr self a) of Inl e \<Rightarrow> [] | Inr r \<Rightarrow> fst (inpaint_from_asr L self a t kw out r))"
  by (simp add: inpaint_audio_def io_simps)

lemma inpaint_audio_result:
  "snd (inpaint_audio L self a t kw out) =
     (case snd (run_asr self a) of Inl e \<Rightarrow> Inl e | Inr r \<Rightarrow> snd (inpaint_from_asr L self a t kw out r))"
  by (simp add: inpaint_audio_def io_simps)

lemma inpaint_from_asr_cases:
  "inpaint_from_asr L self a t kw out (x, y, z) =
    (let req = \<lparr>input_text = x, output_text = t, input_word_times = z, audio = a,
                   num_steps = default 30 (kw_num_steps kw),
                   init_temp = default 1.0 (kw_init_temp kw),
                   init_diversity = default 1.0 (kw_init_diversity kw),
                   guidance = default 0.5 (kw_guidance kw),
                   rescale = default 0.7 (kw_rescale kw),
                   topk = default 25 (kw_topk kw)\<rparr>;
         path = (case out of None \<Rightarrow> ''output_inpaint_'' @ basename a | Some p \<Rightarrow> p)
     in case inpaint (inpainter self) req of
          Inl e \<Rightarrow> ([Call_inpaint req], Inl (Raised e))
        | Inr wav \<Rightarrow>
           ([Call_inpaint req, Print Msg_success, Print (Msg_save path),
             Call_sf_write path (snd wav) (fst wav) ''PCM_16''],
            case sf_write L path (snd wav) (fst wav) ''PCM_16'' of
              Inl e \<Rightarrow> Inl (Raised e) | Inr u \<Rightarrow> Inr path))"
  by (simp add: inpaint_from_asr_def io_simps Let_def prod_eq_iff split: sum.splits)

lemma text_to_speech_cases:
  "text_to_speech L self text voice out =
    (let req = \<lparr>tts_output_text = text, tts_voice = voice\<rparr>;
         path = (case out of None \<Rightarrow> ''output_tts_'' @ basename voice | Some p \<Rightarrow> p);
         intro = [Print Msg_tts_start, Print (Msg_input_text text), Print (Msg_ref_voice voice),
                  Call_tts req]
     in case tts (inpainter self) req of
          Inl e \<Rightarrow> (intro, Inl (Raised e))
        | Inr wav \<Rightarrow>
           (intro @ [Print (Msg_save path), Call_sf_write path (snd wav) (fst wav) ''PCM_16''],
            case sf_write L path (snd wav) (fst wav) ''PCM_16'' of
              Inl e \<Rightarrow> Inl (Raised e) | Inr u \<Rightarrow> Inr path))"
  by (simp add: text_to_speech_def io_simps Let_def prod_eq_iff split: sum.splits)

section \<open>What the command line does\<close>

lemma init_cases:
  "init L path =
    (case new_PlayDiffusion L of
       Inl e \<Rightarrow> ([Call_PlayDiffusion], Inl (Raised e))
     | Inr pd \<Rightarrow>
        (case restore_from L path of
           Inl e \<Rightarrow> ([Call_PlayDiffusion, Call_restore_from path], Inl (Raised e))
         | Inr m \<Rightarrow>
            ([Call_PlayDiffusion, Call_restore_from path, Print (Msg_model_loaded path)],
             Inr \<lparr>inpainter = pd, asr_model = m\<rparr>)))"
  by (simp add: init_def io_simps prod_eq_iff split: sum.splits)

lemma main_no_audio: "flag_audio f = None \<Longrightarrow> main L f = ([], Inl (SystemExit 2))"
  by (simp add: main_def parse_args_def Let_def bind_io_raise raise_io_def)

lemma main_bad_mode:
  "default ''inpaint'' (flag_mode f) \<notin> {''inpaint'', ''tts'', ''asr''} \<Longrightarrow>
   main L f = ([], Inl (SystemExit 2))"
  by (simp add: main_def parse_args_def Let_def bind_io_raise raise_io_def)

lemma main_asr:
  "flag_audio f = Some a \<Longrightarrow> flag_mode f = Some ''asr'' \<Longrightarrow>
   main L f =
     bind_io (init L (model_path f)) (\<lambda>inference.
       bind_io (run_asr inference a) (\<lambda>(text, _, word_times).
       bind_io (emit (Print (Msg_text text))) (\<lambda>_.
       emit (Print (Msg_word_times word_times)))))"
  by (simp add: main_def parse_args_def Let_def default_def model_path_def cong: if_cong)

lemma main_inpaint:
  "flag_audio f = Some a \<Longrightarrow> default ''inpaint'' (flag_mode f) = ''inpaint'' \<Longrightarrow>
   main L f =
     bind_io (init L (model_path f)) (\<lambda>inference.
       if falsy (flag_text f) then raise_io (ValueError Inpaint_needs_text)
       else bind_io (run_complete_pipeline L inference a (the (flag_text f)) (flag_output f)
                       (flag_kwargs f)) (\<lambda>result.
            emit (Print (Msg_output_file result))))"
  by (simp add: main_def parse_args_def Let_def model_path_def flag_kwargs_def cong: if_cong)

lemma main_tts:
  "flag_audio f = Some a \<Longrightarrow> flag_mode f = Some ''tts'' \<Longrightarrow>
   main L f =
     bind_io (init L (model_path f)) (\<lambda>inference.
       if falsy (flag_text f) then raise_io (ValueError Tts_needs_text)
       else if falsy (flag_voice f) then raise_io (ValueError Tts_needs_voice)
       else bind_io (text_to_speech L inference (the (flag_text f)) (the (flag_voice f))
                       (flag_output f)) (\<lambda>result.
            emit (Print (Msg_output_file result))))"
  by (simp add: main_def parse_args_def Let_def default_def model_path_def cong: if_cong)

lemmas stub_simps = stub_self_def stub_pd_def stub_asr_def stub_libs_def no_kwargs_def
  default_def basename_def strip_def lstrip_def rstrip_def

section \<open>Reading the trace of a sequence\<close>

lemma inpaint_requests_append:
  "inpaint_requests (xs @ ys) = inpaint_requests xs @ inpaint_requests ys"
  by (induction xs rule: inpaint_requests.induct) simp_all

lemma written_paths_append:
  "written_paths (xs @ ys) = written_paths xs @ written_paths ys"
  by (induction xs rule: written_paths.induct) simp_all

section \<open>The pipeline, the requests and the written paths\<close>

lemma pipeline_trace:
  "fst (run_complete_pipeline L self a t out kw) =
     [Print Msg_pipeline_start, Print Msg_rule] @ fst (inpaint_audio L self a t kw out) @
     (case snd (inpaint_audio L self a t kw out) of
        Inl e \<Rightarrow> [] | Inr r \<Rightarrow> [Print Msg_rule, Print Msg_pipeline_done])"
  by (simp add: run_complete_pipeline_def io_simps split: sum.splits)

lemma pipeline_result:
  "snd (run_complete_pipeline L self a t out kw) = snd (inpaint_audio L self a t kw out)"
  by (simp add: run_complete_pipeline_def io_simps split: sum.splits)

lemma inpaint_audio_requests:
  "inpaint_requests (fst (inpaint_audio L self a t kw out)) =
     (case transcribe (asr_model self) [a] True of
        Inr (h # hs) \<Rightarrow>
          [\<lparr>input_text = hyp_text h, output_text = t,
            input_word_times =
              map (\<lambda>word. \<lparr>w_word = strip '',.?!'' (w_word word), w_start = w_start word,
                             w_end = w_end word\<rparr>) (hyp_timestamp_word h),
            audio = a,
            num_steps = default 30 (kw_num_steps kw),
            init_temp = default 1.0 (kw_init_temp kw),
            init_diversity = default 1.0 (kw_init_diversity kw),
            guidance = default 0.5 (kw_guidance kw),
            rescale = default 0.7 (kw_rescale kw),
            topk = default 25 (kw_topk kw)\<rparr>]
      | _ \<Rightarrow> [])"
  by (simp add: inpaint_audio_trace run_asr_cases inpaint_from_asr_cases Let_def
      split: sum.splits list.splits)

lemma pipeline_requests:
  "inpaint_requests (fst (run_complete_pipeline L self a t out kw)) =
   inpaint_requests (fst (inpaint_audio L self a t kw out))"
  by (simp add: pipeline_trace inpaint_requests_append split: sum.splits)

lemma run_asr_requests [simp]: "inpaint_requests (fst (run_asr self a)) = []"
  by (simp add: run_asr_cases split: sum.splits list.splits)

lemma text_to_speech_requests [simp]:
  "inpaint_requests (fst (text_to_speech L self t v out)) = []"
  by (simp add: text_to_speech_cases Let_def split: sum.splits)

lemma inpaint_audio_request_fields:
  assumes "req \<in> set (inpaint_requests (fst (inpaint_audio L self a t kw out)))"
  shows "num_steps req = default 30 (kw_num_steps kw) \<and>
         init_temp req = default 1.0 (kw_init_temp kw) \<and>
         init_diversity req = default 1.0 (kw_init_diversity kw) \<and>
         guidance req = default 0.5 (kw_guidance kw) \<and>
         rescale req = default 0.7 (kw_rescale kw) \<and>
         topk req = default 25 (kw_topk kw)"
  using assms by (auto simp add: inpaint_audio_requests split: sum.splits list.splits)

text \<open>A method that returns has written one file, at the path it returns; a method that
  does not return has written at most that file.\<close>

lemma inpaint_audio_paths:
  "(written_paths (fst (inpaint_audio L self a t kw out)) = [] \<or>
    written_paths (fst (inpaint_audio L self a t kw out)) =
      [case out of None \<Rightarrow> ''output_inpaint_'' @ basename a | Some q \<Rightarrow> q]) \<and>
   (\<forall>p. snd (inpaint_audio L self a t kw out) = Inr p \<longrightarrow>
      p = (case out of None \<Rightarrow> ''output_inpaint_'' @ basename a | Some q \<Rightarrow> q) \<and>
      written_paths (fst (inpaint_audio L self a t kw out)) = [p])"
  by (auto simp add: inpaint_audio_trace inpaint_audio_result run_asr_cases
      inpaint_from_asr_cases Let_def split: sum.splits list.splits)

lemma text_to_speech_paths:
  "(written_paths (fst (text_to_speech L self t v out)) = [] \<or>
    written_paths (fst (text_to_speech L self t v out)) =
      [case out of None \<Rightarrow> ''output_tts_'' @ basename v | Some q \<Rightarrow> q]) \<and>
   (\<forall>p. snd (text_to_speech L self t v out) = Inr p \<longrightarrow>
      p = (case out of None \<Rightarrow> ''output_tts_'' @ basename v | Some q \<Rightarrow> q) \<and>
      written_paths (fst (text_to_speech L self t v out)) = [p])"
  by (auto simp add: text_to_speech_cases Let_def split: sum.splits)

lemma pipeline_written:
  "written_paths (fst (run_complete_pipeline L self a t out kw)) =
   written_paths (fst (inpaint_audio L self a t kw out))"
  by (simp add: pipeline_trace written_paths_append split: sum.splits)

lemma run_asr_written [simp]: "written_paths (fst (run_asr self a)) = []"
  by (simp add: run_asr_cases split: sum.splits list.splits)

text \<open>The methods raise what the libraries raise, or \<open>IndexError\<close>; never \<open>ValueError\<close>.\<close>

lemma inpaint_audio_no_value_error:
  "snd (inpaint_audio L self a t kw out) \<noteq> Inl (ValueError v)"
  by (simp add: inpaint_audio_result run_asr_cases inpaint_from_asr_cases Let_def
      split: sum.splits list.splits)

lemma text_to_speech_no_value_error:
  "snd (text_to_speech L self t v out) \<noteq> Inl (ValueError e)"
  by (simp add: text_to_speech_cases Let_def split: sum.splits)

section \<open>The command line, mode by mode\<close>

lemma model_path_update [simp]:
  "model_path (f\<lparr>flag_audio := x\<rparr>) = model_path f"
  "model_path (f\<lparr>flag_text := y\<rparr>) = model_path f"
  "model_path (f\<lparr>flag_voice := y\<rparr>) = model_path f"
  by (simp_all add: model_path_def)

lemma flag_kwargs_update [simp]:
  "flag_kwargs (f\<lparr>flag_audio := x\<rparr>) = flag_kwargs f"
  "flag_kwargs (f\<lparr>flag_text := y\<rparr>) = flag_kwargs f"
  "flag_kwargs (f\<lparr>flag_voice := y\<rparr>) = flag_kwargs f"
  by (simp_all add: flag_kwargs_def)

lemma mode_cases:
  "default ''inpaint'' (flag_mode f) \<notin> {''inpaint'', ''tts'', ''asr''} \<or>
   default ''inpaint'' (flag_mode f) = ''inpaint'' \<or>
   flag_mode f = Some ''tts'' \<or> flag_mode f = Some ''asr''"
  by (auto simp: default_def split: option.splits)

lemma falsy_iff: "falsy x = (x = None \<or> x = Some [])"
  by (simp add: falsy_def split: option.splits)

lemma init_requests [simp]: "inpaint_requests (fst (init L p)) = []"
  by (simp add: init_cases split: sum.splits)

lemma init_written [simp]: "written_paths (fst (init L p)) = []"
  by (simp add: init_cases split: sum.splits)

lemma init_calls:
  "calls (fst (init L p)) =
     Call_PlayDiffusion #
     (case new_PlayDiffusion L of Inl e \<Rightarrow> [] | Inr pd \<Rightarrow> [Call_restore_from p])"
  by (simp add: init_cases calls_def split: sum.splits)

text \<open>An empty string given for \<^verbatim>\<open>--text\<close> or \<^verbatim>\<open>--voice\<close> runs like the flag left out.\<close>

lemma main_empty_text_as_none:
  "main L (f\<lparr>flag_text := Some []\<rparr>) = main L (f\<lparr>flag_text := None\<rparr>)"
proof (cases "flag_audio f")
  case None
  then show ?thesis by (simp add: main_no_audio)
next
  case (Some a)
  from mode_cases [of f] show ?thesis
  proof (elim disjE)
    assume "default ''inpaint'' (flag_mode f) \<notin> {''inpaint'', ''tts'', ''asr''}"
    then show ?thesis by (simp add: main_bad_mode)
  next
    assume "default ''inpaint'' (flag_mode f) = ''inpaint''"
    with Some show ?thesis by (simp add: main_inpaint falsy_def cong: if_cong)
  next
    assume "flag_mode f = Some ''tts''"
    with Some show ?thesis by (simp add: main_tts falsy_def cong: if_cong)
  next
    assume "flag_mode f = Some ''asr''"
    with Some show ?thesis by (simp add: main_asr)
  qed
qed

lemma main_empty_voice_as_none:
  "main L (f\<lparr>flag_voice := Some []\<rparr>) = main L (f\<lparr>flag_voice := None\<rparr>)"
proof (cases "flag_audio f")
  case None
  then show ?thesis by (simp add: main_no_audio)
next
  case (Some a)
  from mode_cases [of f] show ?thesis
  proof (elim disjE)
    assume "default ''inpaint'' (flag_mode f) \<notin> {''inpaint'', ''tts'', ''asr''}"
    then show ?thesis by (simp add: main_bad_mode)
  next
    assume "default ''inpaint'' (flag_mode f) = ''inpaint''"
    with Some show ?thesis by (simp add: main_inpaint falsy_def cong: if_cong)
  next
    assume "flag_mode f = Some ''tts''"
    with Some show ?thesis by (simp add: main_tts falsy_def cong: if_cong)
  next
    assume "flag_mode f = Some ''asr''"
    with Some show ?thesis by (simp add: main_asr)
  qed
qed

text \<open>How a run ends once the constructor has returned.\<close>

lemma main_inpaint_result:
  assumes "flag_audio f = Some a" "default ''inpaint'' (flag_mode f) = ''inpaint''"
    "snd (init L (model_path f)) = Inr self"
  shows "snd (main L f) =
    (if falsy (flag_text f) then Inl (ValueError Inpaint_needs_text)
     else case snd (inpaint_audio L self a (the (flag_text f)) (flag_kwargs f) (flag_output f)) of
       Inl e \<Rightarrow> Inl e | Inr p \<Rightarrow> Inr ())"
  using assms by (simp add: main_inpaint io_simps pipeline_result split: sum.splits)

lemma main_tts_result:
  assumes "flag_audio f = Some a" "flag_mode f = Some ''tts''"
    "snd (init L (model_path f)) = Inr self"
  shows "snd (main L f) =
    (if falsy (flag_text f) then Inl (ValueError Tts_needs_text)
     else if falsy (flag_voice f) then Inl (ValueError Tts_needs_voice)
     else case snd (text_to_speech L self (the (flag_text f)) (the (flag_voice f)) (flag_output f)) of
       Inl e \<Rightarrow> Inl e | Inr p \<Rightarrow> Inr ())"
  using assms by (simp add: main_tts io_simps split: sum.splits)

lemma main_value_error_iff:
  assumes "flag_audio f = Some a" "snd (init L (model_path f)) = Inr self"
  shows "(default ''inpaint'' (flag_mode f) = ''inpaint'' \<longrightarrow>
      (snd (main L f) = Inl (ValueError Inpaint_needs_text)) =
        (flag_text f = None \<or> flag_text f = Some [])) \<and>
   (flag_mode f = Some ''tts'' \<longrightarrow>
      (snd (main L f) = Inl (ValueError Tts_needs_text)) =
        (flag_text f = None \<or> flag_text f = Some []) \<and>
      (snd (main L f) = Inl (ValueError Tts_needs_voice)) =
        ((\<exists>c t. flag_text f = Some (c # t)) \<and> (flag_voice f = None \<or> flag_voice f = Some [])))"
proof (intro conjI impI)
  assume m: "default ''inpaint'' (flag_mode f) = ''inpaint''"
  show "(snd (main L f) = Inl (ValueError Inpaint_needs_text)) =
        (flag_text f = None \<or> flag_text f = Some [])"
    by (auto simp add: main_inpaint_result [OF assms(1) m assms(2)] falsy_iff
        inpaint_audio_no_value_error split: sum.splits)
next
  assume m: "flag_mode f = Some ''tts''"
  show "(snd (main L f) = Inl (ValueError Tts_needs_text)) =
        (flag_text f = None \<or> flag_text f = Some [])"
    by (auto simp add: main_tts_result [OF assms(1) m assms(2)] falsy_iff
        text_to_speech_no_value_error split: sum.splits)
  show "(snd (main L f) = Inl (ValueError Tts_needs_voice)) =
        ((\<exists>c t. flag_text f = Some (c # t)) \<and> (flag_voice f = None \<or> flag_voice f = Some []))"
    by (cases "flag_text f"; cases "the (flag_text f)")
       (auto simp add: main_tts_result [OF assms(1) m assms(2)] falsy_iff
          text_to_speech_no_value_error split: sum.splits)
qed

text \<open>The requests of a run of \<^verbatim>\<open>main\<close> are those of one call of \<^verbatim>\<open>inpaint_audio\<close> with the
  keyword arguments taken from the flags.\<close>

lemma main_requests:
  "inpaint_requests (fst (main L f)) = [] \<or>
   (\<exists>self a t. inpaint_requests (fst (main L f)) =
      inpaint_requests (fst (inpaint_audio L self a t (flag_kwargs f) (flag_output f))))"
proof (cases "flag_audio f")
  case None
  then show ?thesis by (simp add: main_no_audio)
next
  case (Some a)
  from mode_cases [of f] show ?thesis
  proof (elim disjE)
    assume "default ''inpaint'' (flag_mode f) \<notin> {''inpaint'', ''tts'', ''asr''}"
    then show ?thesis by (simp add: main_bad_mode)
  next
    assume "default ''inpaint'' (flag_mode f) = ''inpaint''"
    with Some show ?thesis
      by (auto simp add: main_inpaint io_simps inpaint_requests_append pipeline_requests
          split: sum.splits)
  next
    assume "flag_mode f = Some ''tts''"
    with Some show ?thesis
      by (simp add: main_tts io_simps inpaint_requests_append split: sum.splits)
  next
    assume "flag_mode f = Some ''asr''"
    with Some show ?thesis
      by (simp add: main_asr io_simps inpaint_requests_append split: sum.splits prod.splits)
  qed
qed

lemma main_request_fields:
  assumes "req \<in> set (inpaint_requests (fst (main L f)))"
  shows "num_steps req = default 30 (flag_num_steps f) \<and>
         init_temp req = default 1.0 (flag_init_temp f) \<and>
         init_diversity req = default 1.0 (flag_init_diversity f) \<and>
         guidance req = default 0.5 (flag_guidance f) \<and>
         rescale req = default 0.7 (flag_rescale f) \<and>
         topk req = default 25 (flag_topk f)"
proof -
  from main_requests [of L f] assms obtain self a t
    where "req \<in> set (inpaint_requests (fst (inpaint_audio L self a t (flag_kwargs f) (flag_output f))))"
    by auto
  from inpaint_audio_request_fields [OF this] show ?thesis
    by (simp add: flag_kwargs_def default_def)
qed

lemma main_inpaint_requests:
  assumes "flag_audio f = Some a" "default ''inpaint'' (flag_mode f) = ''inpaint''"
    "flag_text f = Some (c # cs)" "snd (init L (model_path f)) = Inr self"
  shows "inpaint_requests (fst (main L f)) =
         inpaint_requests (fst (inpaint_audio L self a (c # cs) (flag_kwargs f) (flag_output f)))"
  using assms(3,4)
  by (simp add: main_inpaint [OF assms(1,2)] io_simps inpaint_requests_append pipeline_requests
      falsy_def split: sum.splits)

text \<open>The files written by a run of \<^verbatim>\<open>main\<close>, mode by mode.\<close>

lemma main_inpaint_paths:
  assumes "flag_audio f = Some a" "default ''inpaint'' (flag_mode f) = ''inpaint''"
  shows "(written_paths (fst (main L f)) = [] \<or>
          written_paths (fst (main L f)) =
            [case flag_output f of None \<Rightarrow> ''output_inpaint_'' @ basename a | Some q \<Rightarrow> q]) \<and>
         (snd (main L f) = Inr () \<longrightarrow>
            written_paths (fst (main L f)) =
              [case flag_output f of None \<Rightarrow> ''output_inpaint_'' @ basename a | Some q \<Rightarrow> q] \<and>
            last (fst (main L f)) =
              Print (Msg_output_file
                (case flag_output f of None \<Rightarrow> ''output_inpaint_'' @ basename a | Some q \<Rightarrow> q)))"
proof -
  have *: "\<And>self t. (written_paths (fst (inpaint_audio L self a t (flag_kwargs f) (flag_output f))) = [] \<or>
    written_paths (fst (inpaint_audio L self a t (flag_kwargs f) (flag_output f))) =
      [case flag_output f of None \<Rightarrow> ''output_inpaint_'' @ basename a | Some q \<Rightarrow> q]) \<and>
   (\<forall>p. snd (inpaint_audio L self a t (flag_kwargs f) (flag_output f)) = Inr p \<longrightarrow>
      p = (case flag_output f of None \<Rightarrow> ''output_inpaint_'' @ basename a | Some q \<Rightarrow> q) \<and>
      written_paths (fst (inpaint_audio L self a t (flag_kwargs f) (flag_output f))) = [p])"
    by (rule inpaint_audio_paths)
  show ?thesis
    using *
    by (auto simp add: main_inpaint [OF assms] io_simps written_paths_append pipeline_written
        pipeline_trace pipeline_result split: sum.splits)
qed

lemma main_tts_paths:
  assumes "flag_audio f = Some a" "flag_mode f = Some ''tts''"
  shows "(flag_voice f = None \<longrightarrow> written_paths (fst (main L f)) = []) \<and>
         (\<forall>v. flag_voice f = Some v \<longrightarrow>
            written_paths (fst (main L f)) = [] \<or>
            written_paths (fst (main L f)) =
              [case flag_output f of None \<Rightarrow> ''output_tts_'' @ basename v | Some q \<Rightarrow> q]) \<and>
         (snd (main L f) = Inr () \<longrightarrow>
            (\<exists>v. flag_voice f = Some v \<and>
               written_paths (fst (main L f)) =
                 [case flag_output f of None \<Rightarrow> ''output_tts_'' @ basename v | Some q \<Rightarrow> q] \<and>
               last (fst (main L f)) =
                 Print (Msg_output_file
                   (case flag_output f of None \<Rightarrow> ''output_tts_'' @ basename v | Some q \<Rightarrow> q))))"
proof -
  have *: "\<And>self t v. (written_paths (fst (text_to_speech L self t v (flag_output f))) = [] \<or>
    written_paths (fst (text_to_speech L self t v (flag_output f))) =
      [case flag_output f of None \<Rightarrow> ''output_tts_'' @ basename v | Some q \<Rightarrow> q]) \<and>
   (\<forall>p. snd (text_to_speech L self t v (flag_output f)) = Inr p \<longrightarrow>
      p = (case flag_output f of None \<Rightarrow> ''output_tts_'' @ basename v | Some q \<Rightarrow> q) \<and>
      written_paths (fst (text_to_speech L self t v (flag_output f))) = [p])"
    by (rule text_to_speech_paths)
  show ?thesis
    using *
    by (auto simp add: main_tts [OF assms] io_simps written_paths_append falsy_def
        split: sum.splits option.splits)
qed

lemma main_asr_paths:
  assumes "flag_audio f = Some a" "flag_mode f = Some ''asr''"
  shows "written_paths (fst (main L f)) = [] \<and>
         (\<forall>p. Print (Msg_save p) \<notin> set (fst (main L f)) \<and>
              Print (Msg_output_file p) \<notin> set (fst (main L f)))"
  by (auto simp add: main_asr [OF assms] io_simps written_paths_append init_cases run_asr_cases
      split: sum.splits list.splits prod.splits)

section \<open>Runs on the stub libraries\<close>

lemma stub_libs_fields:
  "new_PlayDiffusion stub_libs = Inr stub_pd"
  "restore_from stub_libs p = Inr stub_asr"
  "sf_write stub_libs path d r st = Inr ()"
  by (simp_all add: stub_libs_def)

lemma init_stub:
  "init stub_libs p =
     ([Call_PlayDiffusion, Call_restore_from p, Print (Msg_model_loaded p)], Inr stub_self)"
  by (simp add: init_cases stub_libs_def stub_self_def)

lemma flags_simps:
  "flag_audio inpaint_flags = Some ''clips/a.wav''"
  "flag_mode inpaint_flags = None"
  "flag_text inpaint_flags = Some ''bye''"
  "flag_output inpaint_flags = None"
  "model_path inpaint_flags = ''modeldata/audio/asr/parakeet/parakeet-tdt-0.6b-v2.nemo''"
  "flag_kwargs inpaint_flags =
     \<lparr>kw_num_steps = Some 30, kw_init_temp = Some 1.0, kw_init_diversity = Some 1.0,
      kw_guidance = Some 0.5, kw_rescale = Some 0.7, kw_topk = Some 25\<rparr>"
  "flag_audio tts_flags = Some ''clips/a.wav''"
  "flag_mode tts_flags = Some ''tts''"
  "flag_text tts_flags = Some ''bye''"
  "flag_voice tts_flags = Some ''voices/ref.wav''"
  "flag_output tts_flags = None"
  "model_path tts_flags = ''modeldata/audio/asr/parakeet/parakeet-tdt-0.6b-v2.nemo''"
  "flag_audio asr_flags = Some ''clips/a.wav''"
  "flag_mode asr_flags = Some ''asr''"
  "flag_output asr_flags = None"
  "model_path asr_flags = ''modeldata/audio/asr/parakeet/parakeet-tdt-0.6b-v2.nemo''"
  by (simp_all add: inpaint_flags_def tts_flags_def asr_flags_def only_audio_def model_path_def
      flag_kwargs_def default_def)

lemmas stub_run_simps = stub_self_def stub_pd_def stub_asr_def stub_libs_fields no_kwargs_def
  default_def basename_def strip_def lstrip_def rstrip_def

lemma main_stub_inpaint:
  "main stub_libs inpaint_flags =
     ([Call_PlayDiffusion,
       Call_restore_from ''modeldata/audio/asr/parakeet/parakeet-tdt-0.6b-v2.nemo'',
       Print (Msg_model_loaded ''modeldata/audio/asr/parakeet/parakeet-tdt-0.6b-v2.nemo''),
       Print Msg_pipeline_start, Print Msg_rule,
       Print Msg_inpaint_start, Print (Msg_input_audio ''clips/a.wav''),
       Print (Msg_target_text ''bye''), Print (Msg_run_asr ''clips/a.wav''),
       Call_transcribe [''clips/a.wav''] True, Print (Msg_asr_result ''hello, world.''),
       Call_inpaint \<lparr>input_text = ''hello, world.'', output_text = ''bye'',
         input_word_times = [\<lparr>w_word = ''hello'', w_start = 1.0, w_end = 1.5\<rparr>,
                             \<lparr>w_word = ''world'', w_start = 1.5, w_end = 2.0\<rparr>],
         audio = ''clips/a.wav'', num_steps = 30, init_temp = 1.0, init_diversity = 1.0,
         guidance = 0.5, rescale = 0.7, topk = 25\<rparr>,
       Print Msg_success, Print (Msg_save ''output_inpaint_a.wav''),
       Call_sf_write ''output_inpaint_a.wav'' [0, 0.5, -0.5] 16000 ''PCM_16'',
       Print Msg_rule, Print Msg_pipeline_done,
       Print (Msg_output_file ''output_inpaint_a.wav'')],
      Inr ())"
  by (simp add: main_inpaint [where a = "''clips/a.wav''"] flags_simps init_stub falsy_def
      default_def prod_eq_iff io_simps pipeline_trace pipeline_result inpaint_audio_trace
      inpaint_audio_result run_asr_cases inpaint_from_asr_cases Let_def stub_run_simps)

lemma main_stub_tts:
  "main stub_libs tts_flags =
     ([Call_PlayDiffusion,
       Call_restore_from ''modeldata/audio/asr/parakeet/parakeet-tdt-0.6b-v2.nemo'',
       Print (Msg_model_loaded ''modeldata/audio/asr/parakeet/parakeet-tdt-0.6b-v2.nemo''),
       Print Msg_tts_start, Print (Msg_input_text ''bye''),
       Print (Msg_ref_voice ''voices/ref.wav''),
       Call_tts \<lparr>tts_output_text = ''bye'', tts_voice = ''voices/ref.wav''\<rparr>,
       Print (Msg_save ''output_tts_ref.wav''),
       Call_sf_write ''output_tts_ref.wav'' [0.25] 24000 ''PCM_16'',
       Print (Msg_output_file ''output_tts_ref.wav'')],
      Inr ())"
  by (simp add: main_tts [where a = "''clips/a.wav''"] flags_simps init_stub falsy_def
      prod_eq_iff io_simps text_to_speech_cases Let_def stub_run_simps)

lemma main_stub_asr:
  "main stub_libs asr_flags =
     ([Call_PlayDiffusion,
       Call_restore_from ''modeldata/audio/asr/parakeet/parakeet-tdt-0.6b-v2.nemo'',
       Print (Msg_model_loaded ''modeldata/audio/asr/parakeet/parakeet-tdt-0.6b-v2.nemo''),
       Print (Msg_run_asr ''clips/a.wav''),
       Call_transcribe [''clips/a.wav''] True, Print (Msg_asr_result ''hello, world.''),
       Print (Msg_text ''hello, world.''),
       Print (Msg_word_times [\<lparr>w_word = ''hello'', w_start = 1.0, w_end = 1.5\<rparr>,
                              \<lparr>w_word = ''world'', w_start = 1.5, w_end = 2.0\<rparr>])],
      Inr ())"
  by (simp add: main_asr [where a = "''clips/a.wav''"] flags_simps init_stub
      prod_eq_iff io_simps run_asr_cases Let_def stub_run_simps)

section \<open>The claims\<close>

text \<open>
  Claim C1.  Every run of \<^verbatim>\<open>inpaint_audio\<close> calls \<^verbatim>\<open>asr_model.transcribe\<close> exactly once,
  on the audio path it was given.  A request reaches \<^verbatim>\<open>inpainter.inpaint\<close> only when that
  call returned a hypothesis, and its \<^verbatim>\<open>input_text\<close> is the text of that hypothesis,
  whatever the caller passed.  When the call returns a hypothesis, the library calls of the
  run start with the transcription, followed by the one inpainting call; no further
  transcription or inpainting call follows.
\<close>

theorem inpaint_audio_transcribes_once:
  "filter is_transcribe (fst (inpaint_audio L self audio_path target kw out)) =
     [Call_transcribe [audio_path] True] \<and>
   (\<forall>req \<in> set (inpaint_requests (fst (inpaint_audio L self audio_path target kw out))).
      \<exists>h hs. transcribe (asr_model self) [audio_path] True = Inr (h # hs) \<and>
        input_text req = hyp_text h) \<and>
   (\<forall>h hs. transcribe (asr_model self) [audio_path] True = Inr (h # hs) \<longrightarrow>
      (\<exists>req rest.
         calls (fst (inpaint_audio L self audio_path target kw out)) =
           Call_transcribe [audio_path] True # Call_inpaint req # rest \<and>
         input_text req = hyp_text h \<and>
         filter is_transcribe rest = [] \<and> filter is_inpaint rest = []))"
  by (auto simp add: inpaint_audio_trace run_asr_cases inpaint_from_asr_cases Let_def calls_def
      split: sum.splits list.splits)

text \<open>On the stub libraries: one transcription, then one request carrying the transcript.\<close>

theorem inpaint_audio_transcribes_once_witness:
  "transcribe (asr_model stub_self) [''clips/a.wav''] True =
     Inr [\<lparr>hyp_text = ''hello, world.'',
           hyp_timestamp_word =
             [\<lparr>w_word = ''hello,'', w_start = 1.0, w_end = 1.5\<rparr>,
              \<lparr>w_word = ''world.'', w_start = 1.5, w_end = 2.0\<rparr>]\<rparr>] \<and>
   filter is_transcribe (fst (inpaint_audio stub_libs stub_self ''clips/a.wav'' ''bye'' no_kwargs None)) =
     [Call_transcribe [''clips/a.wav''] True] \<and>
   map input_text (inpaint_requests
     (fst (inpaint_audio stub_libs stub_self ''clips/a.wav'' ''bye'' no_kwargs None))) =
     [''hello, world.''] \<and>
   take 2 (map is_inpaint (calls
     (fst (inpaint_audio stub_libs stub_self ''clips/a.wav'' ''bye'' no_kwargs None)))) =
     [False, True]"
  using inpaint_audio_transcribes_once [where L = stub_libs and self = stub_self and audio_path = "''clips/a.wav''"
      and target = "''bye''" and kw = no_kwargs and out = None]
  by (simp add: inpaint_audio_trace run_asr_cases inpaint_from_asr_cases Let_def calls_def stub_simps)

text \<open>
  Claim C2.  \<^verbatim>\<open>main\<close> constructs the orchestrator before it looks at \<^verbatim>\<open>--text\<close> and
  \<^verbatim>\<open>--voice\<close>.  On a command line with \<^verbatim>\<open>--audio\<close> that omits \<^verbatim>\<open>--text\<close> in mode
  \<^verbatim>\<open>inpaint\<close> or \<^verbatim>\<open>tts\<close>, or omits \<^verbatim>\<open>--voice\<close> in mode \<^verbatim>\<open>tts\<close>, the library calls of the
  run are the construction of \<^verbatim>\<open>PlayDiffusion\<close> and, when that returned, the loading of the
  ASR model, and nothing else: no transcription, inpainting, synthesis or file write.  When
  both returned, the run ends with the \<open>ValueError\<close> for the missing argument; otherwise it
  ends with the exception of the constructor.
\<close>

theorem missing_argument_raised_after_construction:
  assumes "flag_audio f = Some a"
    and "(default ''inpaint'' (flag_mode f) = ''inpaint'' \<and> flag_text f = None) \<or>
         (flag_mode f = Some ''tts'' \<and> (flag_text f = None \<or> flag_voice f = None))"
  shows "calls (fst (main L f)) =
           Call_PlayDiffusion #
           (case new_PlayDiffusion L of
              Inl e \<Rightarrow> []
            | Inr pd \<Rightarrow> [Call_restore_from (model_path f)]) \<and>
         snd (main L f) =
           (case snd (init L (model_path f)) of
              Inl e \<Rightarrow> Inl e
            | Inr self \<Rightarrow>
                Inl (ValueError
                  (if flag_mode f = Some ''tts''
                   then (if falsy (flag_text f) then Tts_needs_text else Tts_needs_voice)
                   else Inpaint_needs_text)))"
  using assms(2)
proof (elim disjE conjE)
  assume m: "default ''inpaint'' (flag_mode f) = ''inpaint''" and t: "flag_text f = None"
  from m have "flag_mode f \<noteq> Some ''tts''" by (auto simp: default_def)
  with t show ?thesis
    by (simp add: main_inpaint [OF assms(1) m] falsy_def io_simps init_calls [symmetric] calls_def
        split: sum.splits)
next
  assume m: "flag_mode f = Some ''tts''" and t: "flag_text f = None"
  then show ?thesis
    by (simp add: main_tts [OF assms(1) m] falsy_def io_simps init_calls [symmetric] calls_def
        split: sum.splits)
next
  assume m: "flag_mode f = Some ''tts''" and t: "flag_voice f = None"
  then show ?thesis
    by (simp add: main_tts [OF assms(1) m] falsy_def io_simps init_calls [symmetric] calls_def
        split: sum.splits)
qed

text \<open>Synthesis without \<^verbatim>\<open>--voice\<close> on the stub libraries: two library calls, then the
  error.\<close>

theorem missing_argument_raised_after_construction_witness:
  "flag_audio (tts_flags\<lparr>flag_voice := None\<rparr>) = Some ''clips/a.wav'' \<and>
   flag_mode (tts_flags\<lparr>flag_voice := None\<rparr>) = Some ''tts'' \<and>
   flag_voice (tts_flags\<lparr>flag_voice := None\<rparr>) = None \<and>
   calls (fst (main stub_libs (tts_flags\<lparr>flag_voice := None\<rparr>))) =
     [Call_PlayDiffusion,
      Call_restore_from ''modeldata/audio/asr/parakeet/parakeet-tdt-0.6b-v2.nemo''] \<and>
   snd (main stub_libs (tts_flags\<lparr>flag_voice := None\<rparr>)) = Inl (ValueError Tts_needs_voice)"
  using missing_argument_raised_after_construction
    [where f = "tts_flags\<lparr>flag_voice := None\<rparr>" and a = "''clips/a.wav''" and L = stub_libs]
  by (simp add: tts_flags_def only_audio_def init_stub model_path_def default_def falsy_def
      stub_libs_fields)

text \<open>With \<^verbatim>\<open>--audio clips/a.wav\<close> alone (mode \<^verbatim>\<open>inpaint\<close>, no \<^verbatim>\<open>--text\<close>) the run ends with
  the \<open>ValueError\<close>, and by then \<^verbatim>\<open>PlayDiffusion\<close> has been constructed and the ASR model
  loaded: the error does not come before every collaborator.\<close>

theorem missing_text_raised_after_model_load:
  "snd (main stub_libs only_audio) = Inl (ValueError Inpaint_needs_text) \<and>
   fst (main stub_libs only_audio) =
     [Call_PlayDiffusion,
      Call_restore_from ''modeldata/audio/asr/parakeet/parakeet-tdt-0.6b-v2.nemo'',
      Print (Msg_model_loaded ''modeldata/audio/asr/parakeet/parakeet-tdt-0.6b-v2.nemo'')] \<and>
   calls (fst (main stub_libs only_audio)) \<noteq> []"
  by (simp add: main_inpaint [where a = "''clips/a.wav''"] only_audio_def default_def
      model_path_def falsy_def init_stub io_simps calls_def)

text \<open>
  Claim C3.  When the ASR model returns a hypothesis, \<^verbatim>\<open>run_asr\<close> returns one word entry
  per word of the hypothesis, in order.  Each entry has the \<^verbatim>\<open>start\<close> and \<^verbatim>\<open>end\<close> of its
  word unchanged, and its text is the word's text without a leading and a trailing run of
  the characters \<^verbatim>\<open>,.?!\<close>: what is cut consists of these characters only, and what is left
  neither starts nor ends with one of them.
\<close>

theorem run_asr_trims_words:
  assumes "transcribe (asr_model self) [audio_path] True = Inr (h # hs)"
  shows "\<exists>text wts. snd (run_asr self audio_path) = Inr (text, text, wts) \<and>
     length wts = length (hyp_timestamp_word h) \<and>
     (\<forall>i < length wts.
        w_start (wts ! i) = w_start (hyp_timestamp_word h ! i) \<and>
        w_end (wts ! i) = w_end (hyp_timestamp_word h ! i) \<and>
        (\<exists>pre suf. w_word (hyp_timestamp_word h ! i) = pre @ w_word (wts ! i) @ suf \<and>
           set pre \<subseteq> set '',.?!'' \<and> set suf \<subseteq> set '',.?!'' \<and>
           (w_word (wts ! i) = [] \<or>
            (hd (w_word (wts ! i)) \<notin> set '',.?!'' \<and> last (w_word (wts ! i)) \<notin> set '',.?!''))))"
proof -
  let ?wts = "map (\<lambda>word. \<lparr>w_word = strip '',.?!'' (w_word word), w_start = w_start word,
                          w_end = w_end word\<rparr>) (hyp_timestamp_word h)"
  have r: "snd (run_asr self audio_path) = Inr (hyp_text h, hyp_text h, ?wts)"
    using assms by (simp add: run_asr_ok)
  have "\<forall>i < length ?wts.
        w_start (?wts ! i) = w_start (hyp_timestamp_word h ! i) \<and>
        w_end (?wts ! i) = w_end (hyp_timestamp_word h ! i) \<and>
        (\<exists>pre suf. w_word (hyp_timestamp_word h ! i) = pre @ w_word (?wts ! i) @ suf \<and>
           set pre \<subseteq> set '',.?!'' \<and> set suf \<subseteq> set '',.?!'' \<and>
           (w_word (?wts ! i) = [] \<or>
            (hd (w_word (?wts ! i)) \<notin> set '',.?!'' \<and> last (w_word (?wts ! i)) \<notin> set '',.?!'')))"
    using strip_trimmed [of _ "'',.?!''"] by simp
  with r show ?thesis by (intro exI conjI) (assumption, simp, assumption)
qed

text \<open>The stub recognises \<^verbatim>\<open>hello,\<close> from 1.0 to 1.5: the entry is \<^verbatim>\<open>hello\<close> from 1.0 to 1.5.\<close>

theorem run_asr_trims_words_witness:
  "transcribe (asr_model stub_self) [''clips/a.wav''] True =
     Inr [\<lparr>hyp_text = ''hello, world.'',
           hyp_timestamp_word =
             [\<lparr>w_word = ''hello,'', w_start = 1.0, w_end = 1.5\<rparr>,
              \<lparr>w_word = ''world.'', w_start = 1.5, w_end = 2.0\<rparr>]\<rparr>] \<and>
   snd (run_asr stub_self ''clips/a.wav'') =
     Inr (''hello, world.'', ''hello, world.'',
          [\<lparr>w_word = ''hello'', w_start = 1.0, w_end = 1.5\<rparr>,
           \<lparr>w_word = ''world'', w_start = 1.5, w_end = 2.0\<rparr>])"
  using run_asr_trims_words [where self = stub_self and audio_path = "''clips/a.wav''" and hs = "[]"]
  by (simp add: run_asr_cases stub_simps)

text \<open>
  Claim C4.  \<^verbatim>\<open>inpaint_audio\<close> and \<^verbatim>\<open>text_to_speech\<close> return, and write to, the path given
  as \<^verbatim>\<open>output_path\<close>, unchanged; when none is given, \<^verbatim>\<open>output_inpaint_\<close> followed by the
  basename of the audio path, and \<^verbatim>\<open>output_tts_\<close> followed by the basename of the voice
  path.  On the command line (with \<^verbatim>\<open>--audio\<close>): in mode \<^verbatim>\<open>inpaint\<close> and in mode \<^verbatim>\<open>tts\<close> no
  file other than the one at that path is written, and a run that ends normally has
  written exactly that file and printed that path last.  In mode \<^verbatim>\<open>asr\<close> no output path is
  resolved: no file is written and no output path printed, with or without \<^verbatim>\<open>--output\<close>.
\<close>

theorem output_path_resolution:
  "(\<forall>p. snd (inpaint_audio L self a t kw out) = Inr p \<longrightarrow>
      p = (case out of None \<Rightarrow> ''output_inpaint_'' @ basename a | Some q \<Rightarrow> q) \<and>
      written_paths (fst (inpaint_audio L self a t kw out)) = [p]) \<and>
   (\<forall>p. snd (text_to_speech L self t v out) = Inr p \<longrightarrow>
      p = (case out of None \<Rightarrow> ''output_tts_'' @ basename v | Some q \<Rightarrow> q) \<and>
      written_paths (fst (text_to_speech L self t v out)) = [p]) \<and>
   (flag_audio f = Some a \<longrightarrow>
      (default ''inpaint'' (flag_mode f) = ''inpaint'' \<longrightarrow>
         (written_paths (fst (main L f)) = [] \<or>
          written_paths (fst (main L f)) =
            [case flag_output f of None \<Rightarrow> ''output_inpaint_'' @ basename a | Some q \<Rightarrow> q]) \<and>
         (snd (main L f) = Inr () \<longrightarrow>
            written_paths (fst (main L f)) =
              [case flag_output f of None \<Rightarrow> ''output_inpaint_'' @ basename a | Some q \<Rightarrow> q] \<and>
            last (fst (main L f)) =
              Print (Msg_output_file
                (case flag_output f of None \<Rightarrow> ''output_inpaint_'' @ basename a | Some q \<Rightarrow> q)))) \<and>
      (flag_mode f = Some ''tts'' \<longrightarrow>
         (flag_voice f = None \<longrightarrow> written_paths (fst (main L f)) = []) \<and>
         (\<forall>v. flag_voice f = Some v \<longrightarrow>
            written_paths (fst (main L f)) = [] \<or>
            written_paths (fst (main L f)) =
              [case flag_output f of None \<Rightarrow> ''output_tts_'' @ basename v | Some q \<Rightarrow> q]) \<and>
         (snd (main L f) = Inr () \<longrightarrow>
            (\<exists>v. flag_voice f = Some v \<and>
               written_paths (fst (main L f)) =
                 [case flag_output f of None \<Rightarrow> ''output_tts_'' @ basename v | Some q \<Rightarrow> q] \<and>
               last (fst (main L f)) =
                 Print (Msg_output_file
                   (case flag_output f of None \<Rightarrow> ''output_tts_'' @ basename v | Some q \<Rightarrow> q))))) \<and>
      (flag_mode f = Some ''asr'' \<longrightarrow>
         written_paths (fst (main L f)) = [] \<and>
         (\<forall>p. Print (Msg_save p) \<notin> set (fst (main L f)) \<and>
              Print (Msg_output_file p) \<notin> set (fst (main L f)))))"
proof (intro conjI impI)
  show "\<forall>p. snd (inpaint_audio L self a t kw out) = Inr p \<longrightarrow>
      p = (case out of None \<Rightarrow> ''output_inpaint_'' @ basename a | Some q \<Rightarrow> q) \<and>
      written_paths (fst (inpaint_audio L self a t kw out)) = [p]"
    using inpaint_audio_paths [of L self a t kw out] by (rule conjunct2)
  show "\<forall>p. snd (text_to_speech L self t v out) = Inr p \<longrightarrow>
      p = (case out of None \<Rightarrow> ''output_tts_'' @ basename v | Some q \<Rightarrow> q) \<and>
      written_paths (fst (text_to_speech L self t v out)) = [p]"
    using text_to_speech_paths [of L self t v out] by (rule conjunct2)
next
  assume a: "flag_audio f = Some a" and m: "default ''inpaint'' (flag_mode f) = ''inpaint''"
  from main_inpaint_paths [OF a m, of L]
  show "written_paths (fst (main L f)) = [] \<or>
          written_paths (fst (main L f)) =
            [case flag_output f of None \<Rightarrow> ''output_inpaint_'' @ basename a | Some q \<Rightarrow> q]"
    by (rule conjunct1)
  assume "snd (main L f) = Inr ()"
  with main_inpaint_paths [OF a m, of L]
  show "written_paths (fst (main L f)) =
              [case flag_output f of None \<Rightarrow> ''output_inpaint_'' @ basename a | Some q \<Rightarrow> q]"
    and "last (fst (main L f)) =
              Print (Msg_output_file
                (case flag_output f of None \<Rightarrow> ''output_inpaint_'' @ basename a | Some q \<Rightarrow> q))"
    by simp_all
next
  assume a: "flag_audio f = Some a" and m: "flag_mode f = Some ''tts''"
  from main_tts_paths [OF a m, of L]
  show "\<forall>v. flag_voice f = Some v \<longrightarrow>
            written_paths (fst (main L f)) = [] \<or>
            written_paths (fst (main L f)) =
              [case flag_output f of None \<Rightarrow> ''output_tts_'' @ basename v | Some q \<Rightarrow> q]"
    by blast
  {
    assume "flag_voice f = None"
    with main_tts_paths [OF a m, of L] show "written_paths (fst (main L f)) = []" by blast
  }
  assume "snd (main L f) = Inr ()"
  with main_tts_paths [OF a m, of L]
  show "\<exists>v. flag_voice f = Some v \<and>
               written_paths (fst (main L f)) =
                 [case flag_output f of None \<Rightarrow> ''output_tts_'' @ basename v | Some q \<Rightarrow> q] \<and>
               last (fst (main L f)) =
                 Print (Msg_output_file
                   (case flag_output f of None \<Rightarrow> ''output_tts_'' @ basename v | Some q \<Rightarrow> q))"
    by blast
next
  assume a: "flag_audio f = Some a" and m: "flag_mode f = Some ''asr''"
  from main_asr_paths [OF a m, of L]
  show "written_paths (fst (main L f)) = []"
    and "\<forall>p. Print (Msg_save p) \<notin> set (fst (main L f)) \<and>
              Print (Msg_output_file p) \<notin> set (fst (main L f))"
    by simp_all
qed

text \<open>On the stub libraries: \<^verbatim>\<open>output_inpaint_a.wav\<close> for the audio \<^verbatim>\<open>clips/a.wav\<close>,
  \<^verbatim>\<open>output_tts_ref.wav\<close> for the voice \<^verbatim>\<open>voices/ref.wav\<close>, and a given path as it is.\<close>

theorem output_path_resolution_witness:
  "snd (main stub_libs inpaint_flags) = Inr () \<and>
   written_paths (fst (main stub_libs inpaint_flags)) = [''output_inpaint_a.wav''] \<and>
   last (fst (main stub_libs inpaint_flags)) = Print (Msg_output_file ''output_inpaint_a.wav'') \<and>
   snd (main stub_libs tts_flags) = Inr () \<and>
   written_paths (fst (main stub_libs tts_flags)) = [''output_tts_ref.wav''] \<and>
   last (fst (main stub_libs tts_flags)) = Print (Msg_output_file ''output_tts_ref.wav'') \<and>
   snd (text_to_speech stub_libs stub_self ''bye'' ''voices/ref.wav'' (Some ''results/out.wav'')) =
     Inr ''results/out.wav'' \<and>
   written_paths (fst (text_to_speech stub_libs stub_self ''bye'' ''voices/ref.wav''
     (Some ''results/out.wav''))) = [''results/out.wav'']"
  using output_path_resolution [where L = stub_libs and f = inpaint_flags and a = "''clips/a.wav''"
      and self = stub_self and t = "''bye''" and v = "''voices/ref.wav''"
      and out = "Some ''results/out.wav''" and kw = no_kwargs]
    output_path_resolution [where L = stub_libs and f = tts_flags and a = "''clips/a.wav''"
      and self = stub_self and t = "''bye''" and v = "''voices/ref.wav''"
      and out = "Some ''results/out.wav''" and kw = no_kwargs]
  by (simp add: flags_simps main_stub_inpaint main_stub_tts text_to_speech_cases Let_def
      stub_run_simps)

text \<open>Mode \<^verbatim>\<open>asr\<close> without \<^verbatim>\<open>--output\<close> on the stub libraries: the run ends normally, and
  its whole trace is the construction, the transcription and two printed lines.  No file
  \<^verbatim>\<open>output_inpaint_a.wav\<close> is written, and no output path appears.\<close>

theorem asr_mode_resolves_no_output_path:
  "main stub_libs asr_flags =
     ([Call_PlayDiffusion,
       Call_restore_from ''modeldata/audio/asr/parakeet/parakeet-tdt-0.6b-v2.nemo'',
       Print (Msg_model_loaded ''modeldata/audio/asr/parakeet/parakeet-tdt-0.6b-v2.nemo''),
       Print (Msg_run_asr ''clips/a.wav''),
       Call_transcribe [''clips/a.wav''] True, Print (Msg_asr_result ''hello, world.''),
       Print (Msg_text ''hello, world.''),
       Print (Msg_word_times [\<lparr>w_word = ''hello'', w_start = 1.0, w_end = 1.5\<rparr>,
                              \<lparr>w_word = ''world'', w_start = 1.5, w_end = 2.0\<rparr>])],
      Inr ()) \<and>
   flag_output asr_flags = None \<and>
   written_paths (fst (main stub_libs asr_flags)) = [] \<and>
   written_paths (fst (main stub_libs asr_flags)) \<noteq> [''output_inpaint_a.wav'']"
  by (simp add: main_stub_asr flags_simps)

text \<open>
  Claim C5.  Every request that reaches \<^verbatim>\<open>inpainter.inpaint\<close> in a run of \<^verbatim>\<open>main\<close> carries,
  for each sampling flag left out on the command line, the default of that flag: 30 steps,
  temperature 1.0, diversity 1.0, guidance 0.5, rescale 0.7, top-k 25.  The same holds for
  every request of \<^verbatim>\<open>inpaint_audio\<close> and of \<^verbatim>\<open>run_complete_pipeline\<close> and the keyword
  arguments their caller left out.  There is such a request: one, when the transcription
  returns a hypothesis (and, for \<^verbatim>\<open>main\<close>, the mode is \<^verbatim>\<open>inpaint\<close>, \<^verbatim>\<open>--text\<close> is not empty
  and the constructor returned).
\<close>

theorem omitted_sampling_flags_take_defaults:
  "(\<forall>req \<in> set (inpaint_requests (fst (main L f))).
      (flag_num_steps f = None \<longrightarrow> num_steps req = 30) \<and>
      (flag_init_temp f = None \<longrightarrow> init_temp req = 1.0) \<and>
      (flag_init_diversity f = None \<longrightarrow> init_diversity req = 1.0) \<and>
      (flag_guidance f = None \<longrightarrow> guidance req = 0.5) \<and>
      (flag_rescale f = None \<longrightarrow> rescale req = 0.7) \<and>
      (flag_topk f = None \<longrightarrow> topk req = 25)) \<and>
   (\<forall>req \<in> set (inpaint_requests (fst (inpaint_audio L self a t kw out)) @
                 inpaint_requests (fst (run_complete_pipeline L self a t out kw))).
      (kw_num_steps kw = None \<longrightarrow> num_steps req = 30) \<and>
      (kw_init_temp kw = None \<longrightarrow> init_temp req = 1.0) \<and>
      (kw_init_diversity kw = None \<longrightarrow> init_diversity req = 1.0) \<and>
      (kw_guidance kw = None \<longrightarrow> guidance req = 0.5) \<and>
      (kw_rescale kw = None \<longrightarrow> rescale req = 0.7) \<and>
      (kw_topk kw = None \<longrightarrow> topk req = 25)) \<and>
   (\<forall>h hs. transcribe (asr_model self) [a] True = Inr (h # hs) \<longrightarrow>
      (\<exists>req. inpaint_requests (fst (inpaint_audio L self a t kw out)) = [req] \<and>
             inpaint_requests (fst (run_complete_pipeline L self a t out kw)) = [req]) \<and>
      (\<forall>c cs. flag_audio f = Some a \<and> default ''inpaint'' (flag_mode f) = ''inpaint'' \<and>
          flag_text f = Some (c # cs) \<and> snd (init L (model_path f)) = Inr self \<longrightarrow>
          (\<exists>req. inpaint_requests (fst (main L f)) = [req])))"
proof (intro conjI allI impI)
  show "\<forall>req \<in> set (inpaint_requests (fst (main L f))).
      (flag_num_steps f = None \<longrightarrow> num_steps req = 30) \<and>
      (flag_init_temp f = None \<longrightarrow> init_temp req = 1.0) \<and>
      (flag_init_diversity f = None \<longrightarrow> init_diversity req = 1.0) \<and>
      (flag_guidance f = None \<longrightarrow> guidance req = 0.5) \<and>
      (flag_rescale f = None \<longrightarrow> rescale req = 0.7) \<and>
      (flag_topk f = None \<longrightarrow> topk req = 25)"
    by (auto dest!: main_request_fields simp add: default_def)
  show "\<forall>req \<in> set (inpaint_requests (fst (inpaint_audio L self a t kw out)) @
                 inpaint_requests (fst (run_complete_pipeline L self a t out kw))).
      (kw_num_steps kw = None \<longrightarrow> num_steps req = 30) \<and>
      (kw_init_temp kw = None \<longrightarrow> init_temp req = 1.0) \<and>
      (kw_init_diversity kw = None \<longrightarrow> init_diversity req = 1.0) \<and>
      (kw_guidance kw = None \<longrightarrow> guidance req = 0.5) \<and>
      (kw_rescale kw = None \<longrightarrow> rescale req = 0.7) \<and>
      (kw_topk kw = None \<longrightarrow> topk req = 25)"
    by (auto dest!: inpaint_audio_request_fields simp add: pipeline_requests default_def)
next
  fix h hs assume "transcribe (asr_model self) [a] True = Inr (h # hs)"
  then show "\<exists>req. inpaint_requests (fst (inpaint_audio L self a t kw out)) = [req] \<and>
             inpaint_requests (fst (run_complete_pipeline L self a t out kw)) = [req]"
    by (simp add: pipeline_requests inpaint_audio_requests)
next
  fix h hs c cs
  assume tr: "transcribe (asr_model self) [a] True = Inr (h # hs)"
    and "flag_audio f = Some a \<and> default ''inpaint'' (flag_mode f) = ''inpaint'' \<and>
          flag_text f = Some (c # cs) \<and> snd (init L (model_path f)) = Inr self"
  then have "inpaint_requests (fst (main L f)) =
         inpaint_requests (fst (inpaint_audio L self a (c # cs) (flag_kwargs f) (flag_output f)))"
    by (intro main_inpaint_requests) simp_all
  with tr show "\<exists>req. inpaint_requests (fst (main L f)) = [req]"
    by (simp add: inpaint_audio_requests)
qed

text \<open>On the stub libraries, with no sampling flag given: the one request carries the six
  defaults; with \<^verbatim>\<open>topk=10\<close> given to \<^verbatim>\<open>inpaint_audio\<close>, the five others.\<close>

theorem omitted_sampling_flags_take_defaults_witness:
  "inpaint_requests (fst (main stub_libs inpaint_flags)) =
     [\<lparr>input_text = ''hello, world.'', output_text = ''bye'',
        input_word_times = [\<lparr>w_word = ''hello'', w_start = 1.0, w_end = 1.5\<rparr>,
                            \<lparr>w_word = ''world'', w_start = 1.5, w_end = 2.0\<rparr>],
        audio = ''clips/a.wav'', num_steps = 30, init_temp = 1.0, init_diversity = 1.0,
        guidance = 0.5, rescale = 0.7, topk = 25\<rparr>] \<and>
   inpaint_requests (fst (inpaint_audio stub_libs stub_self ''clips/a.wav'' ''bye''
       (no_kwargs\<lparr>kw_topk := Some 10\<rparr>) None)) =
     [\<lparr>input_text = ''hello, world.'', output_text = ''bye'',
        input_word_times = [\<lparr>w_word = ''hello'', w_start = 1.0, w_end = 1.5\<rparr>,
                            \<lparr>w_word = ''world'', w_start = 1.5, w_end = 2.0\<rparr>],
        audio = ''clips/a.wav'', num_steps = 30, init_temp = 1.0, init_diversity = 1.0,
        guidance = 0.5, rescale = 0.7, topk = 10\<rparr>]"
  using omitted_sampling_flags_take_defaults [where L = stub_libs and f = inpaint_flags
      and self = stub_self and a = "''clips/a.wav''" and t = "''bye''"
      and kw = "no_kwargs\<lparr>kw_topk := Some 10\<rparr>" and out = None]
  by (simp add: main_stub_inpaint inpaint_audio_requests stub_run_simps)

text \<open>
  Claim C6.  For all arguments, \<^verbatim>\<open>run_complete_pipeline\<close> makes the library calls of
  \<^verbatim>\<open>inpaint_audio\<close> on the same arguments (the file write is one of them), in the same
  order, and ends the same way: with the same path, or with the same exception.  The two
  differ only in the banner lines that \<^verbatim>\<open>run_complete_pipeline\<close> prints.
\<close>

theorem run_complete_pipeline_same_as_inpaint_audio: "calls (fst (run_complete_pipeline L self a t out kw)) = calls (fst (inpaint_audio L self a t kw out))
  \<and> snd (run_complete_pipeline L self a t out kw) = snd (inpaint_audio L self a t kw out)"
  by (simp add: run_complete_pipeline_def io_simps calls_def split: sum.splits)

text \<open>On the stub libraries, the calls of the pipeline are those of \<^verbatim>\<open>inpaint_audio\<close>.\<close>

theorem run_complete_pipeline_same_as_inpaint_audio_witness:
  "calls (fst (run_complete_pipeline stub_libs stub_self ''clips/a.wav'' ''bye'' None no_kwargs)) =
     [Call_transcribe [''clips/a.wav''] True,
      Call_inpaint \<lparr>input_text = ''hello, world.'', output_text = ''bye'',
        input_word_times = [\<lparr>w_word = ''hello'', w_start = 1.0, w_end = 1.5\<rparr>,
                            \<lparr>w_word = ''world'', w_start = 1.5, w_end = 2.0\<rparr>],
        audio = ''clips/a.wav'', num_steps = 30, init_temp = 1.0, init_diversity = 1.0,
        guidance = 0.5, rescale = 0.7, topk = 25\<rparr>,
      Call_sf_write ''output_inpaint_a.wav'' [0, 0.5, -0.5] 16000 ''PCM_16'']"
  using run_complete_pipeline_same_as_inpaint_audio [where L = stub_libs and self = stub_self and a = "''clips/a.wav''"
      and t = "''bye''" and out = None and kw = no_kwargs]
  by (simp add: inpaint_audio_trace run_asr_cases inpaint_from_asr_cases Let_def calls_def stub_simps)




text \<open>
  Claim C8.  A command line without \<^verbatim>\<open>--audio\<close> is rejected by the parser, whatever the
  mode, before anything is done.  In mode \<^verbatim>\<open>tts\<close> the value of \<^verbatim>\<open>--audio\<close> is not read:
  two command lines that differ only in it run alike (same prints, same library calls with
  the same arguments, same file written, same end), and the run is a function of the other
  flags.
\<close>

theorem audio_required_but_unread_in_tts:
  "(flag_audio f = None \<longrightarrow> main L f = ([], Inl (SystemExit 2))) \<and>
   (flag_mode f = Some ''tts'' \<longrightarrow>
      main L (f\<lparr>flag_audio := Some a\<rparr>) = main L (f\<lparr>flag_audio := Some b\<rparr>) \<and>
      main L (f\<lparr>flag_audio := Some a\<rparr>) =
        bind_io (init L (model_path f)) (\<lambda>inference.
          if falsy (flag_text f) then raise_io (ValueError Tts_needs_text)
          else if falsy (flag_voice f) then raise_io (ValueError Tts_needs_voice)
          else bind_io (text_to_speech L inference (the (flag_text f)) (the (flag_voice f))
                          (flag_output f)) (\<lambda>result.
               emit (Print (Msg_output_file result)))))"
  by (simp add: main_no_audio main_tts cong: if_cong)

text \<open>On the stub libraries: without \<^verbatim>\<open>--audio\<close> each mode exits with status 2, and the
  synthesis run with another audio file is the run with \<^verbatim>\<open>clips/a.wav\<close>.\<close>

theorem audio_required_but_unread_in_tts_witness:
  "main stub_libs (tts_flags\<lparr>flag_audio := None\<rparr>) = ([], Inl (SystemExit 2)) \<and>
   main stub_libs (asr_flags\<lparr>flag_audio := None\<rparr>) = ([], Inl (SystemExit 2)) \<and>
   main stub_libs (inpaint_flags\<lparr>flag_audio := None\<rparr>) = ([], Inl (SystemExit 2)) \<and>
   main stub_libs (tts_flags\<lparr>flag_audio := Some ''other/b.flac''\<rparr>) =
     main stub_libs (tts_flags\<lparr>flag_audio := Some ''clips/a.wav''\<rparr>) \<and>
   calls (fst (main stub_libs (tts_flags\<lparr>flag_audio := Some ''other/b.flac''\<rparr>))) =
     [Call_PlayDiffusion,
      Call_restore_from ''modeldata/audio/asr/parakeet/parakeet-tdt-0.6b-v2.nemo'',
      Call_tts \<lparr>tts_output_text = ''bye'', tts_voice = ''voices/ref.wav''\<rparr>,
      Call_sf_write ''output_tts_ref.wav'' [0.25] 24000 ''PCM_16'']"
proof -
  have same: "tts_flags\<lparr>flag_audio := Some ''clips/a.wav''\<rparr> = tts_flags"
    by (simp add: tts_flags_def only_audio_def)
  show ?thesis
    using audio_required_but_unread_in_tts [where L = stub_libs and f = "tts_flags\<lparr>flag_audio := None\<rparr>"]
      audio_required_but_unread_in_tts [where L = stub_libs and f = "asr_flags\<lparr>flag_audio := None\<rparr>"]
      audio_required_but_unread_in_tts [where L = stub_libs and f = "inpaint_flags\<lparr>flag_audio := None\<rparr>"]
      audio_required_but_unread_in_tts [where L = stub_libs and f = tts_flags
        and a = "''other/b.flac''" and b = "''clips/a.wav''", THEN conjunct2, THEN mp, THEN conjunct1]
    by (simp add: flags_simps same main_stub_tts calls_def)
qed

text \<open>
  Claim C9.  \<^verbatim>\<open>run_asr\<close> returns exactly when the transcription returns a hypothesis, and
  then the first two components of its triple are equal: both are the text of that
  hypothesis.  The one request that \<^verbatim>\<open>inpaint_audio\<close> then hands to \<^verbatim>\<open>inpainter.inpaint\<close>
  has the first component as \<^verbatim>\<open>input_text\<close> and the third as \<^verbatim>\<open>input_word_times\<close>; its
  other fields come from the arguments.  The second component is dropped: \<^verbatim>\<open>inpaint_audio\<close>
  is the same computation when any other value is put in its place.
\<close>

theorem inpaint_audio_uses_first_text_only:
  "((\<exists>x y z. snd (run_asr self a) = Inr (x, y, z)) =
      (\<exists>h hs. transcribe (asr_model self) [a] True = Inr (h # hs))) \<and>
   (\<forall>x y z. snd (run_asr self a) = Inr (x, y, z) \<longrightarrow>
      x = y \<and>
      (\<exists>h hs. transcribe (asr_model self) [a] True = Inr (h # hs) \<and> x = hyp_text h) \<and>
      inpaint_requests (fst (inpaint_audio L self a t kw out)) =
        [\<lparr>input_text = x, output_text = t, input_word_times = z, audio = a,
          num_steps = default 30 (kw_num_steps kw),
          init_temp = default 1.0 (kw_init_temp kw),
          init_diversity = default 1.0 (kw_init_diversity kw),
          guidance = default 0.5 (kw_guidance kw),
          rescale = default 0.7 (kw_rescale kw),
          topk = default 25 (kw_topk kw)\<rparr>]) \<and>
   inpaint_audio L self a t kw out =
     bind_io (emit (Print Msg_inpaint_start)) (\<lambda>_.
     bind_io (emit (Print (Msg_input_audio a))) (\<lambda>_.
     bind_io (emit (Print (Msg_target_text t))) (\<lambda>_.
     bind_io (run_asr self a) (\<lambda>(x, y, z).
       inpaint_from_asr L self a t kw out (x, y', z)))))"
proof (intro conjI allI impI)
  show "(\<exists>x y z. snd (run_asr self a) = Inr (x, y, z)) =
      (\<exists>h hs. transcribe (asr_model self) [a] True = Inr (h # hs))"
    by (simp add: run_asr_cases split: sum.splits list.splits)
next
  fix x y z assume "snd (run_asr self a) = Inr (x, y, z)"
  then show "x = y"
    by (auto simp add: run_asr_cases split: sum.splits list.splits)
next
  fix x y z assume "snd (run_asr self a) = Inr (x, y, z)"
  then show "\<exists>h hs. transcribe (asr_model self) [a] True = Inr (h # hs) \<and> x = hyp_text h"
    by (auto simp add: run_asr_cases split: sum.splits list.splits)
next
  fix x y z assume "snd (run_asr self a) = Inr (x, y, z)"
  then show "inpaint_requests (fst (inpaint_audio L self a t kw out)) =
        [\<lparr>input_text = x, output_text = t, input_word_times = z, audio = a,
          num_steps = default 30 (kw_num_steps kw),
          init_temp = default 1.0 (kw_init_temp kw),
          init_diversity = default 1.0 (kw_init_diversity kw),
          guidance = default 0.5 (kw_guidance kw),
          rescale = default 0.7 (kw_rescale kw),
          topk = default 25 (kw_topk kw)\<rparr>]"
    by (auto simp add: inpaint_audio_requests run_asr_cases split: sum.splits list.splits)
next
  have "inpaint_from_asr L self a t kw out = (\<lambda>(x, y, z). inpaint_from_asr L self a t kw out (x, y', z))"
    by (rule ext) (simp add: inpaint_from_asr_def split: prod.splits)
  then show "inpaint_audio L self a t kw out =
     bind_io (emit (Print Msg_inpaint_start)) (\<lambda>_.
     bind_io (emit (Print (Msg_input_audio a))) (\<lambda>_.
     bind_io (emit (Print (Msg_target_text t))) (\<lambda>_.
     bind_io (run_asr self a) (\<lambda>(x, y, z).
       inpaint_from_asr L self a t kw out (x, y', z)))))"
    unfolding inpaint_audio_def by simp
qed

text \<open>On the stub libraries \<^verbatim>\<open>run_asr\<close> returns the text twice, and the request of
  \<^verbatim>\<open>inpaint_audio\<close> carries it as \<^verbatim>\<open>input_text\<close>.\<close>

theorem inpaint_audio_uses_first_text_only_witness:
  "snd (run_asr stub_self ''clips/a.wav'') =
     Inr (''hello, world.'', ''hello, world.'',
          [\<lparr>w_word = ''hello'', w_start = 1.0, w_end = 1.5\<rparr>,
           \<lparr>w_word = ''world'', w_start = 1.5, w_end = 2.0\<rparr>]) \<and>
   inpaint_requests (fst (inpaint_audio stub_libs stub_self ''clips/a.wav'' ''bye'' no_kwargs None)) =
     [\<lparr>input_text = ''hello, world.'', output_text = ''bye'',
        input_word_times = [\<lparr>w_word = ''hello'', w_start = 1.0, w_end = 1.5\<rparr>,
                            \<lparr>w_word = ''world'', w_start = 1.5, w_end = 2.0\<rparr>],
        audio = ''clips/a.wav'', num_steps = 30, init_temp = 1.0, init_diversity = 1.0,
        guidance = 0.5, rescale = 0.7, topk = 25\<rparr>]"
  using inpaint_audio_uses_first_text_only [where self = stub_self and a = "''clips/a.wav''"
      and L = stub_libs and t = "''bye''" and kw = no_kwargs and out = None and y' = "''other''",
      THEN conjunct2, THEN conjunct1]
  by (simp add: run_asr_cases stub_simps)

text \<open>
  Claim C10.  \<^verbatim>\<open>main\<close> tests \<^verbatim>\<open>not args.text\<close> and \<^verbatim>\<open>not args.voice\<close>: a run with the empty
  string for \<^verbatim>\<open>--text\<close>, or for \<^verbatim>\<open>--voice\<close>, is the run with that flag left out.  Once the
  constructor has returned, the run ends with the \<open>ValueError\<close> about \<^verbatim>\<open>--text\<close> exactly
  when \<^verbatim>\<open>--text\<close> is left out or empty (modes \<^verbatim>\<open>inpaint\<close> and \<^verbatim>\<open>tts\<close>), and with the one
  about \<^verbatim>\<open>--voice\<close> exactly when \<^verbatim>\<open>--text\<close> is not empty and \<^verbatim>\<open>--voice\<close> is left out or
  empty (mode \<^verbatim>\<open>tts\<close>).
\<close>

theorem empty_string_counts_as_missing:
  "main L (f\<lparr>flag_text := Some []\<rparr>) = main L (f\<lparr>flag_text := None\<rparr>) \<and>
   main L (f\<lparr>flag_voice := Some []\<rparr>) = main L (f\<lparr>flag_voice := None\<rparr>) \<and>
   (flag_audio f = Some a \<and> snd (init L (model_path f)) = Inr self \<longrightarrow>
      (default ''inpaint'' (flag_mode f) = ''inpaint'' \<longrightarrow>
         (snd (main L f) = Inl (ValueError Inpaint_needs_text)) =
           (flag_text f = None \<or> flag_text f = Some [])) \<and>
      (flag_mode f = Some ''tts'' \<longrightarrow>
         (snd (main L f) = Inl (ValueError Tts_needs_text)) =
           (flag_text f = None \<or> flag_text f = Some []) \<and>
         (snd (main L f) = Inl (ValueError Tts_needs_voice)) =
           ((\<exists>c t. flag_text f = Some (c # t)) \<and>
            (flag_voice f = None \<or> flag_voice f = Some []))))"
  using main_empty_text_as_none [of L f] main_empty_voice_as_none [of L f]
    main_value_error_iff [of f a L self]
  by blast

text \<open>On the stub libraries, an empty and an omitted \<^verbatim>\<open>--text\<close> or \<^verbatim>\<open>--voice\<close> end with
  the same error.\<close>

theorem empty_string_counts_as_missing_witness:
  "snd (main stub_libs (inpaint_flags\<lparr>flag_text := Some []\<rparr>)) =
     Inl (ValueError Inpaint_needs_text) \<and>
   snd (main stub_libs (inpaint_flags\<lparr>flag_text := None\<rparr>)) =
     Inl (ValueError Inpaint_needs_text) \<and>
   snd (main stub_libs (tts_flags\<lparr>flag_text := Some []\<rparr>)) = Inl (ValueError Tts_needs_text) \<and>
   snd (main stub_libs (tts_flags\<lparr>flag_voice := Some []\<rparr>)) = Inl (ValueError Tts_needs_voice) \<and>
   snd (main stub_libs (tts_flags\<lparr>flag_voice := None\<rparr>)) = Inl (ValueError Tts_needs_voice)"
  using empty_string_counts_as_missing [where L = stub_libs and f = "inpaint_flags\<lparr>flag_text := Some []\<rparr>"
      and a = "''clips/a.wav''" and self = stub_self, THEN conjunct2, THEN conjunct2]
    empty_string_counts_as_missing [where L = stub_libs and f = "inpaint_flags\<lparr>flag_text := None\<rparr>"
      and a = "''clips/a.wav''" and self = stub_self, THEN conjunct2, THEN conjunct2]
    empty_string_counts_as_missing [where L = stub_libs and f = "tts_flags\<lparr>flag_text := Some []\<rparr>"
      and a = "''clips/a.wav''" and self = stub_self, THEN conjunct2, THEN conjunct2]
    empty_string_counts_as_missing [where L = stub_libs and f = "tts_flags\<lparr>flag_voice := Some []\<rparr>"
      and a = "''clips/a.wav''" and self = stub_self, THEN conjunct2, THEN conjunct2]
    empty_string_counts_as_missing [where L = stub_libs and f = "tts_flags\<lparr>flag_voice := None\<rparr>"
      and a = "''clips/a.wav''" and self = stub_self, THEN conjunct2, THEN conjunct2]
  by (simp add: flags_simps init_stub default_def)

end
